theory Spec2Isabelle
  imports Complex_Main
begin

section \<open>BeamBench: the beam propagation engine\<close>

text \<open>
  A shallow embedding of \<^verbatim>\<open>optics.js\<close>, of \<^verbatim>\<open>syncSourceW0ZR\<close> (sources module) and of
  \<^verbatim>\<open>recompute\<close> in \<^verbatim>\<open>propagation.js\<close>.

  JavaScript numbers are modelled as real numbers. Rounding, \<^verbatim>\<open>NaN\<close> and the infinities
  are outside this model: a quotient whose divisor the source does not guard is only
  meaningful here for a nonzero divisor, and the theorems say so in their hypotheses.
  A value the source sets to \<^verbatim>\<open>Infinity\<close> on purpose is an \<open>option\<close> with \<open>None\<close> for it.
\<close>

subsection \<open>JavaScript helpers\<close>

text \<open>\<^verbatim>\<open>a || b\<close> on numbers: \<^verbatim>\<open>b\<close> when \<^verbatim>\<open>a\<close> is zero, else \<^verbatim>\<open>a\<close>.\<close>

definition js_or :: "real \<Rightarrow> real \<Rightarrow> real" where
  "js_or a b = (if a = 0 then b else a)"

text \<open>\<^verbatim>\<open>a ?? b\<close>: \<^verbatim>\<open>b\<close> when \<^verbatim>\<open>a\<close> is undefined.\<close>

definition js_nullish :: "'a option \<Rightarrow> 'a \<Rightarrow> 'a" where
  "js_nullish a b = (case a of None \<Rightarrow> b | Some v \<Rightarrow> v)"

subsection \<open>optics.js: class Complex\<close>

record cplx =
  re :: real
  im :: real

text \<open>An argument that is either a number or a \<^verbatim>\<open>Complex\<close>, as \<^verbatim>\<open>Complex.from\<close> accepts.\<close>

datatype operand = Num real | Cx cplx

definition Complex_new :: "real \<Rightarrow> real \<Rightarrow> cplx" where
  "Complex_new a b = \<lparr>re = a, im = b\<rparr>"

fun Complex_from :: "operand \<Rightarrow> cplx" where
  "Complex_from (Cx c) = c"
| "Complex_from (Num v) = Complex_new v 0"

definition Complex_clone :: "cplx \<Rightarrow> cplx" where
  "Complex_clone c = Complex_new (re c) (im c)"

definition Complex_add :: "cplx \<Rightarrow> operand \<Rightarrow> cplx" where
  "Complex_add c b0 = (let b = Complex_from b0 in Complex_new (re c + re b) (im c + im b))"

definition Complex_mul :: "cplx \<Rightarrow> operand \<Rightarrow> cplx" where
  "Complex_mul c b0 = (let b = Complex_from b0 in
     Complex_new (re c * re b - im c * im b) (re c * im b + im c * re b))"

text \<open>The denominator \<^verbatim>\<open>d\<close> of \<^verbatim>\<open>div\<close> and \<^verbatim>\<open>inv\<close>: \<^verbatim>\<open>re*re + im*im || 1e-18\<close>.\<close>

definition Complex_den :: "cplx \<Rightarrow> real" where
  "Complex_den b = js_or (re b * re b + im b * im b) (1 / 10 ^ 18)"

definition Complex_div :: "cplx \<Rightarrow> operand \<Rightarrow> cplx" where
  "Complex_div c b0 = (let b = Complex_from b0; d = Complex_den b in
     Complex_new ((re c * re b + im c * im b) / d) ((im c * re b - re c * im b) / d))"

definition Complex_inv :: "cplx \<Rightarrow> cplx" where
  "Complex_inv c = (let d = Complex_den c in Complex_new (re c / d) (- im c / d))"

type_synonym jones = "cplx \<times> cplx"

definition jNorm :: "jones \<Rightarrow> real" where
  "jNorm J = (let s0 = re (fst J) * re (fst J) + im (fst J) * im (fst J);
                  s1 = re (snd J) * re (snd J) + im (snd J) * im (snd J)
              in sqrt (s0 + s1))"

subsection \<open>propagation.js: beam-parameter helpers of recompute\<close>

definition freeSpace :: "cplx \<Rightarrow> real \<Rightarrow> cplx" where
  "freeSpace qIn L = (let Aq = Complex_mul (Complex_clone qIn) (Cx (Complex_new 1 0));
                          num = Complex_add Aq (Num L);
                          den = Complex_add (Complex_mul (Complex_clone qIn) (Cx (Complex_new 0 0))) (Num 1)
                      in Complex_div num (Cx den))"

definition wFromQ :: "cplx \<Rightarrow> real \<Rightarrow> real \<Rightarrow> real" where
  "wFromQ qval wavelength M2 = (let inv = Complex_inv qval;
                                    denom = js_or (\<bar>im inv\<bar> * pi) (1 / 10 ^ 18)
                                in sqrt M2 * sqrt (wavelength / denom))"

subsection \<open>Sources\<close>

record source_props =
  wavelength_nm :: real
  bandwidth_nm :: "real option"
  specSamples :: "real option"
  waist_w0_um :: real
  rayleigh_mm :: real
  forward_cm :: real
  backward_cm :: real
  intensity_rel :: "real option"
  M2 :: "real option"
  polPreset :: string
  customPolEx :: string
  customPolEy :: string

record vec3 =
  vx :: real
  vy :: real
  vz :: real

text \<open>
  A source: its property bag, which of waist and Rayleigh range was edited last
  (\<^verbatim>\<open>'w0'\<close> or \<^verbatim>\<open>'zR'\<close>), and what the engine reads of its pose (\<^verbatim>\<open>group.position\<close> and
  the local +Z axis turned by \<^verbatim>\<open>group.quaternion\<close>).
\<close>

record source =
  props :: source_props
  lastEdited :: string
  group_position :: vec3
  group_forward :: vec3

definition syncSourceW0ZR :: "source \<Rightarrow> source" where
  "syncSourceW0ZR src = (let m2 = max 1 (js_nullish (M2 (props src)) 1);
                             lam = wavelength_nm (props src) * (1 / 10 ^ 9)
     in if lastEdited src = ''w0''
        then let w0 = max (1 / 10 ^ 9) (waist_w0_um (props src) * (1 / 10 ^ 6))
             in src\<lparr>props := (props src)\<lparr>rayleigh_mm := (pi * w0 * w0 / lam) / m2 * 10 ^ 3\<rparr>\<rparr>
        else let zR = max (1 / 10 ^ 12) (rayleigh_mm (props src) * (1 / 10 ^ 3))
             in src\<lparr>props := (props src)\<lparr>waist_w0_um := sqrt (zR * lam * m2 / pi) * 10 ^ 6\<rparr>\<rparr>)"

subsection \<open>three.js: the Vector3 operations the engine calls\<close>

definition Vector3_new :: "real \<Rightarrow> real \<Rightarrow> real \<Rightarrow> vec3" where
  "Vector3_new a b c = \<lparr>vx = a, vy = b, vz = c\<rparr>"

definition v_add :: "vec3 \<Rightarrow> vec3 \<Rightarrow> vec3" where
  "v_add a b = Vector3_new (vx a + vx b) (vy a + vy b) (vz a + vz b)"

definition v_sub :: "vec3 \<Rightarrow> vec3 \<Rightarrow> vec3" where
  "v_sub a b = Vector3_new (vx a - vx b) (vy a - vy b) (vz a - vz b)"

definition v_multiplyScalar :: "vec3 \<Rightarrow> real \<Rightarrow> vec3" where
  "v_multiplyScalar a k = Vector3_new (vx a * k) (vy a * k) (vz a * k)"

definition v_dot :: "vec3 \<Rightarrow> vec3 \<Rightarrow> real" where
  "v_dot a b = vx a * vx b + vy a * vy b + vz a * vz b"

definition v_length :: "vec3 \<Rightarrow> real" where
  "v_length a = sqrt (vx a * vx a + vy a * vy a + vz a * vz a)"

text \<open>\<^verbatim>\<open>normalize()\<close> is \<^verbatim>\<open>divideScalar(length() || 1)\<close>, and \<^verbatim>\<open>divideScalar(s)\<close> multiplies by \<^verbatim>\<open>1/s\<close>.\<close>

definition v_normalize :: "vec3 \<Rightarrow> vec3" where
  "v_normalize a = v_multiplyScalar a (1 / js_or (v_length a) 1)"

definition v_crossVectors :: "vec3 \<Rightarrow> vec3 \<Rightarrow> vec3" where
  "v_crossVectors a b = Vector3_new (vy a * vz b - vz a * vy b) (vz a * vx b - vx a * vz b)
                                    (vx a * vy b - vy a * vx b)"

definition MathUtils_clamp :: "real \<Rightarrow> real \<Rightarrow> real \<Rightarrow> real" where
  "MathUtils_clamp v lo hi = max lo (min hi v)"

definition MathUtils_radToDeg :: "real \<Rightarrow> real" where
  "MathUtils_radToDeg r = r * (180 / pi)"

text \<open>\<^verbatim>\<open>Math.atan2(y, x)\<close> on real arguments.\<close>

definition Math_atan2 :: "real \<Rightarrow> real \<Rightarrow> real" where
  "Math_atan2 b a = (if 0 < a then arctan (b / a)
                     else if a < 0 then (if 0 \<le> b then arctan (b / a) + pi else arctan (b / a) - pi)
                     else if 0 < b then pi / 2 else if b < 0 then - (pi / 2) else 0)"

text \<open>\<^verbatim>\<open>Math.sign\<close>.\<close>

definition Math_sign :: "real \<Rightarrow> real" where
  "Math_sign v = (if 0 < v then 1 else if v < 0 then - 1 else 0)"

subsection \<open>propagation.js: ray-path state\<close>

record polSample =
  ps_p :: vec3
  ps_dir :: vec3
  ps_j :: jones
  ps_phase :: real
  ps_wavelength :: real

text \<open>
  The in-flight ray of \<^verbatim>\<open>recompute\<close>; field \<^verbatim>\<open>x\<close> of the source object is \<open>p_x\<close> here
  (\<open>p_lam\<close> is the wavelength field). \<^verbatim>\<open>lastHit\<close> is the mesh to skip at the next raycast, named
  by the id of its element (every element owns exactly one mesh).
\<close>

record path =
  p_pos :: vec3
  p_dir :: vec3
  p_q :: cplx
  p_J :: jones
  p_Jnorm :: real
  p_lam :: real
  p_M2 :: real
  p_traveled :: real
  p_lastHit :: "nat option"
  p_maxLen :: real
  p_pts :: "vec3 list"
  p_dirs :: "vec3 list"
  p_widths :: "real list"
  p_amps :: "real list"
  p_polSamples :: "polSample list"
  p_polSampleCountdown :: real

definition POL_SPACING :: real where
  "POL_SPACING = 5 / 1000"

subsection \<open>propagation.js: seeding\<close>

text \<open>
  \<^verbatim>\<open>jonesFrom\<close>. The custom branch parses its two strings with a regular expression and
  \<^verbatim>\<open>parseFloat\<close>; that parser is the parameter \<open>parseC\<close>. The third and fourth presets are
  \<^verbatim>\<open>+45\<close> and \<^verbatim>\<open>-45\<close> followed by the degree sign (two bytes in UTF-8).
\<close>

definition jonesFrom :: "(string \<Rightarrow> cplx) \<Rightarrow> string \<Rightarrow> string \<Rightarrow> string \<Rightarrow> jones" where
  "jonesFrom parseC preset exStr eyStr =
    (if preset = ''Linear X'' then (Complex_new 1 0, Complex_new 0 0)
     else if preset = ''Linear Y'' then (Complex_new 0 0, Complex_new 1 0)
     else if preset = ''+45'' @ [CHR 0xC2, CHR 0xB0]
       then (let a = 1 / sqrt 2 in (Complex_new a 0, Complex_new a 0))
     else if preset = ''-45'' @ [CHR 0xC2, CHR 0xB0]
       then (let a = 1 / sqrt 2 in (Complex_new a 0, Complex_new (- a) 0))
     else if preset = ''RHC'' then (let a = 1 / sqrt 2 in (Complex_new a 0, Complex_new 0 (- a)))
     else if preset = ''LHC'' then (let a = 1 / sqrt 2 in (Complex_new a 0, Complex_new 0 a))
     else (parseC exStr, parseC eyStr))"

text \<open>\<^verbatim>\<open>Number(x || b)\<close> for a property that may be missing.\<close>

definition js_or_opt :: "real option \<Rightarrow> real \<Rightarrow> real" where
  "js_or_opt a b = (case a of None \<Rightarrow> b | Some v \<Rightarrow> js_or v b)"

record sample =
  smp_lam :: real
  smp_weight :: real

text \<open>The bandwidth \<^verbatim>\<open>BW\<close> (nm, FWHM) and the sample count \<^verbatim>\<open>N\<close> of a source.\<close>

definition spectralBW :: "source \<Rightarrow> real" where
  "spectralBW s = max 0 (js_or_opt (bandwidth_nm (props s)) 0)"

definition spectralN :: "source \<Rightarrow> int" where
  "spectralN s = (let N = max 1 \<lfloor>js_or_opt (specSamples (props s)) 1\<rfloor>
                  in if 0 < spectralBW s \<and> N mod 2 = 0 then N + 1 else N)"

text \<open>One pass of the sample loop, for index \<open>i\<close>: the wavelength (m) and the raw weight.\<close>

definition spectralSample :: "real \<Rightarrow> real \<Rightarrow> real \<Rightarrow> nat \<Rightarrow> sample" where
  "spectralSample lam0 BW half i =
    (let frac = (real i - half) / half;
         dnm = frac * BW * (1 / 2);
         lamnm = (lam0 * 10 ^ 9) + dnm;
         lam = max (1 / 10 ^ 12) (lamnm * (1 / 10 ^ 9));
         w = exp (- 4 * ln 2 * (dnm / BW) ^ 2)
     in \<lparr>smp_lam = lam, smp_weight = w\<rparr>)"

definition spectralSamples :: "source \<Rightarrow> sample list" where
  "spectralSamples s =
    (let lam0 = wavelength_nm (props s) * (1 / 10 ^ 9);
         BW = spectralBW s;
         N = spectralN s
     in if BW \<le> 0 \<or> N = 1 then [\<lparr>smp_lam = lam0, smp_weight = 1\<rparr>]
        else let half = (real_of_int N - 1) / 2;
                 samples = map (spectralSample lam0 BW half) [0..<nat N];
                 sumW = js_or (foldl (\<lambda>a b. a + smp_weight b) 0 samples) 1
             in map (\<lambda>smp. smp\<lparr>smp_weight := smp_weight smp / sumW\<rparr>) samples)"

definition makeSeed :: "(string \<Rightarrow> cplx) \<Rightarrow> source \<Rightarrow> vec3 \<Rightarrow> real \<Rightarrow> real \<Rightarrow> real \<Rightarrow> path" where
  "makeSeed parseC s dir maxLen lam weight =
    (let w0_m = max (1 / 10 ^ 9) (waist_w0_um (props s) * (1 / 10 ^ 6));
         zR_center = max (1 / 10 ^ 12) (rayleigh_mm (props s) * (1 / 10 ^ 3));
         Jsrc0 = jonesFrom parseC (polPreset (props s)) (customPolEx (props s)) (customPolEy (props s));
         Irel = max 0 (js_nullish (intensity_rel (props s)) 1);
         J0 = max (1 / 10 ^ 12) (jNorm Jsrc0);
         m2 = max 1 (js_nullish (M2 (props s)) 1);
         origin = group_position s;
         zR = (if lastEdited s = ''w0'' then (pi * w0_m * w0_m / lam) / m2 else zR_center);
         q0 = Complex_new 0 zR;
         Jscaled = (Complex_mul (fst Jsrc0) (Num (sqrt (weight * Irel))),
                    Complex_mul (snd Jsrc0) (Num (sqrt (weight * Irel))));
         amp0 = jNorm Jscaled / J0
     in \<lparr>p_pos = origin, p_dir = dir, p_q = Complex_clone q0,
         p_J = (Complex_clone (fst Jscaled), Complex_clone (snd Jscaled)),
         p_Jnorm = J0, p_lam = lam, p_M2 = m2, p_traveled = 0, p_lastHit = None,
         p_maxLen = maxLen, p_pts = [origin], p_dirs = [dir],
         p_widths = [wFromQ (Complex_clone q0) lam m2], p_amps = [amp0],
         p_polSamples = [], p_polSampleCountdown = POL_SPACING / 2\<rparr>)"

text \<open>
  The body of the loop over the sources, for one source: synchronise it, build its spectral
  samples and return the seeds it pushes on the queue, forward before backward for each sample.
\<close>

definition seedSource :: "(string \<Rightarrow> cplx) \<Rightarrow> source \<Rightarrow> source \<times> path list" where
  "seedSource parseC s0 =
    (let s = syncSourceW0ZR s0;
         dirF = v_normalize (group_forward s);
         dirB = v_multiplyScalar dirF (- 1);
         Lf = max 0 (forward_cm (props s) * (1 / 100));
         Lb = max 0 (backward_cm (props s) * (1 / 100))
     in (s, concat (map (\<lambda>smp.
            (if 0 < Lf then [makeSeed parseC s dirF Lf (smp_lam smp) (smp_weight smp)] else []) @
            (if 0 < Lb then [makeSeed parseC s dirB Lb (smp_lam smp) (smp_weight smp)] else []))
          (spectralSamples s))))"

subsection \<open>Elements, hits and the scene\<close>

text \<open>The properties the engine reads from an element's property bag.\<close>

record el_props =
  prop_polarizing :: bool
  prop_polTransmit :: string
  prop_R :: "real option"
  prop_refl :: "real option"
  prop_dichroic :: bool
  prop_reflBand_nm :: "(real \<times> real) option"
  prop_transBand_nm :: "(real \<times> real) option"
  prop_flat :: bool
  prop_mode :: string
  prop_d_um :: real
  prop_orders :: real
  prop_visibleOrders :: "int \<Rightarrow> bool option"
  prop_f :: real

text \<open>
  An element: id, type tag, property bag, its transfer functions (\<^verbatim>\<open>abcdTransmit\<close> and
  \<^verbatim>\<open>jones\<close> may be absent), and what the engine reads of its mesh through three.js: the local
  +Z and +X axes turned by the world quaternion, and the world position.
\<close>

record element =
  el_id :: nat
  el_type :: string
  el_props :: el_props
  el_abcd :: "cplx \<Rightarrow> cplx"
  el_abcdTransmit :: "(cplx \<Rightarrow> cplx) option"
  el_jones :: "(jones \<Rightarrow> vec3 \<Rightarrow> jones) option"
  mesh_normal :: vec3
  mesh_tangent :: vec3
  mesh_position :: vec3

text \<open>A raycaster hit; \<^verbatim>\<open>hit.object\<close> is the mesh of \<open>h_element\<close>.\<close>

record hit =
  h_distance :: real
  h_point :: vec3
  h_element :: element

text \<open>
  The scene as the engine sees it: \<open>intersectObjects origin direction near far\<close> is
  three.js's \<^verbatim>\<open>Raycaster(origin, direction, near, far).intersectObjects(meshes, false)\<close>, the
  hits in order of distance.
\<close>

record scene =
  intersectObjects :: "vec3 \<Rightarrow> vec3 \<Rightarrow> real \<Rightarrow> real \<Rightarrow> hit list"

text \<open>\<^verbatim>\<open>params\<close>: the step cap is a count (the control offers the integers 4 to 200).\<close>

record params =
  maxSegments :: nat
  showPolarization :: bool

text \<open>An entry of \<^verbatim>\<open>elementLastInfo\<close> or \<^verbatim>\<open>meterLastInfo\<close>; \<open>None\<close> in \<open>r_R_mm\<close> is \<^verbatim>\<open>Infinity\<close>.\<close>

record readout =
  r_aoi_deg :: real
  r_incomingDir :: vec3
  r_x_mm :: real
  r_z_mm :: real
  r_w_um :: real
  r_w0_um :: real
  r_R_mm :: "real option"
  r_Irel :: "real option"
  r_I :: "real option"
  r_psi_deg :: real
  r_chi_deg :: real
  r_wavelength_nm :: "real option"
  r_z_to_waist_mm :: real
  r_zR_mm :: real

record gratingOrder =
  go_m :: int
  go_dir :: vec3
  go_betaDeg :: real
  go_disp_deg_per_nm :: "real option"

record gratingInfo =
  gi_alphaDeg :: real
  gi_entries :: "(int \<times> real \<times> real option) list"

text \<open>What the work loop mutates besides the completed paths.\<close>

record engine =
  queue :: "path list"
  elementLastInfo :: "nat \<rightharpoonup> readout"
  meterLastInfo :: "nat \<rightharpoonup> readout"
  gratingLastInfo :: "nat \<rightharpoonup> gratingInfo"
  meterUpdated :: bool

definition AMP_CUTOFF :: real where
  "AMP_CUTOFF = 2 / 100"

definition MAX_BEAMS :: nat where
  "MAX_BEAMS = 600"

subsection \<open>propagation.js: helpers\<close>

definition polEllipseAngles :: "jones \<Rightarrow> real \<times> real" where
  "polEllipseAngles J =
    (let a = fst J; b = snd J;
         ax2 = re a * re a + im a * im a; ay2 = re b * re b + im b * im b;
         re_abStar = re a * re b + im a * im b; im_abStar = - re a * im b + im a * re b;
         S0 = ax2 + ay2; S1 = ax2 - ay2; S2 = 2 * re_abStar; S3 = 2 * im_abStar
     in (1 / 2 * Math_atan2 S2 S1 * 180 / pi,
         1 / 2 * arcsin (max (- 1) (min 1 (if S0 \<noteq> 0 then S3 / S0 else 0))) * 180 / pi))"

definition reflectAcrossElementNormal :: "vec3 \<Rightarrow> element \<Rightarrow> vec3" where
  "reflectAcrossElementNormal dirv el =
    (let nWorld = v_normalize (mesh_normal el)
     in v_normalize (v_sub dirv (v_multiplyScalar nWorld (2 * v_dot dirv nWorld))))"

text \<open>
  The block "record output beam state" that the splitter, mirror, lens and generic branches
  repeat, and the detector with the wavelength added: the entry built from a beam state.
\<close>

definition beamReadout :: "real \<Rightarrow> vec3 \<Rightarrow> vec3 \<Rightarrow> cplx \<Rightarrow> real \<Rightarrow> real \<Rightarrow> jones \<Rightarrow> real \<Rightarrow> readout" where
  "beamReadout aoi incoming pos qv lam m2 Jv irel =
    (let invq = Complex_inv qv;
         w_um = wFromQ qv lam m2 * 10 ^ 6;
         zR_m = im qv;
         w0_um = sqrt (zR_m * lam * m2 / pi) * 10 ^ 6;
         R_mm = (if \<bar>re invq\<bar> < 1 / 10 ^ 12 then None else Some ((1 / re invq) * 10 ^ 3));
         polAngles = polEllipseAngles Jv
     in \<lparr>r_aoi_deg = aoi, r_incomingDir = incoming, r_x_mm = vx pos * 10 ^ 3, r_z_mm = vz pos * 10 ^ 3,
         r_w_um = w_um, r_w0_um = w0_um, r_R_mm = R_mm, r_Irel = Some irel, r_I = None,
         r_psi_deg = fst polAngles, r_chi_deg = snd polAngles, r_wavelength_nm = None,
         r_z_to_waist_mm = re qv * 10 ^ 3, r_zR_mm = zR_m * 10 ^ 3\<rparr>)"

text \<open>The relative amplitude \<^verbatim>\<open>jNorm(J) / Jnorm\<close> of a path and its square, the relative intensity.\<close>

definition relAmp :: "path \<Rightarrow> real" where
  "relAmp path = jNorm (p_J path) / p_Jnorm path"

definition relIntensity :: "path \<Rightarrow> real" where
  "relIntensity path = (relAmp path) ^ 2"

text \<open>
  The four pushes every interaction ends with (position, direction, width, relative
  amplitude), and the nudge \<^verbatim>\<open>pos.add(dir.clone().multiplyScalar(1e-6))\<close>.
\<close>

definition pushPoint :: "path \<Rightarrow> path" where
  "pushPoint path = path\<lparr>p_pts := p_pts path @ [p_pos path],
                          p_dirs := p_dirs path @ [p_dir path],
                          p_widths := p_widths path @ [wFromQ (p_q path) (p_lam path) (p_M2 path)],
                          p_amps := p_amps path @ [relAmp path]\<rparr>"

definition nudge :: "path \<Rightarrow> path" where
  "nudge path = path\<lparr>p_pos := v_add (p_pos path) (v_multiplyScalar (p_dir path) (1 / 10 ^ 6))\<rparr>"

text \<open>\<^verbatim>\<open>cloneBase\<close>: a copy of the path with \<^verbatim>\<open>lastHit\<close> null; the caller sets \<^verbatim>\<open>dir\<close> and \<^verbatim>\<open>J\<close>.\<close>

definition cloneBase :: "path \<Rightarrow> path" where
  "cloneBase path = path\<lparr>p_lastHit := None\<rparr>"

subsection \<open>propagation.js: sampleSegment\<close>

text \<open>The loop \<^verbatim>\<open>while (path.polSampleCountdown <= 0)\<close> of a segment of length \<open>L\<close>.\<close>

function polSampleLoop :: "real \<Rightarrow> path \<Rightarrow> path" where
  "polSampleLoop L path =
    (if p_polSampleCountdown path \<le> 0
     then let sampleDistInSeg = L + p_polSampleCountdown path;
              p = v_add (p_pos path) (v_multiplyScalar (p_dir path) sampleDistInSeg);
              k_phase = (2 * pi) / p_lam path;
              totalDist = p_traveled path + sampleDistInSeg;
              spatialPhase = k_phase * totalDist
          in polSampleLoop L (path\<lparr>
               p_polSamples := p_polSamples path @
                 [\<lparr>ps_p = p, ps_dir = p_dir path,
                   ps_j = (Complex_clone (fst (p_J path)), Complex_clone (snd (p_J path))),
                   ps_phase = spatialPhase, ps_wavelength = p_lam path\<rparr>],
               p_polSampleCountdown := p_polSampleCountdown path + POL_SPACING\<rparr>)
     else path)"
  by pat_completeness auto
termination
proof (relation "measure (\<lambda>(L, path). if p_polSampleCountdown path \<le> 0
                           then nat \<lfloor>- p_polSampleCountdown path * 200\<rfloor> + 1 else 0)")
  show "wf (measure (\<lambda>(L, path). if p_polSampleCountdown path \<le> 0
                           then nat \<lfloor>- p_polSampleCountdown path * 200\<rfloor> + 1 else 0))"
    by simp
next
  fix L :: real and path :: path and a b c d e
  assume le: "p_polSampleCountdown path \<le> 0"
  have "\<lfloor>- (p_polSampleCountdown path + 5 / 1000) * 200\<rfloor> = \<lfloor>- p_polSampleCountdown path * 200\<rfloor> - 1"
    by (simp add: algebra_simps)
  moreover have "0 \<le> \<lfloor>- p_polSampleCountdown path * 200\<rfloor>" using le by simp
  ultimately show "((L, path\<lparr>p_polSamples := p_polSamples path @ [\<lparr>ps_p = c, ps_dir = p_dir path,
                   ps_j = (Complex_clone (fst (p_J path)), Complex_clone (snd (p_J path))),
                   ps_phase = e, ps_wavelength = p_lam path\<rparr>],
               p_polSampleCountdown := p_polSampleCountdown path + POL_SPACING\<rparr>), L, path)
      \<in> measure (\<lambda>(L, path). if p_polSampleCountdown path \<le> 0
                           then nat \<lfloor>- p_polSampleCountdown path * 200\<rfloor> + 1 else 0)"
    using le by (auto simp add: POL_SPACING_def)
qed

text \<open>
  The cut points of a free-space segment \<open>[0, L]\<close>: the waist at \<open>z = - Re q0\<close> and a guard on
  each side of it are added when the waist lies strictly inside, and the cuts are sorted.
\<close>

definition segmentCuts :: "cplx \<Rightarrow> real \<Rightarrow> real list" where
  "segmentCuts q0 L =
    (let cuts = [0, L]; zWaist = - re q0
     in sort (if 0 < zWaist \<and> zWaist < L
              then let eps = max (L * (1 / 10 ^ 4)) (1 / 10 ^ 6)
                   in cuts @ [max 0 (zWaist - eps), zWaist, min L (zWaist + eps)]
              else cuts))"

text \<open>The distances \<open>t\<close> sampled in the sub-segment from \<open>a\<close> to \<open>b\<close> (the loop over \<open>i\<close>).\<close>

definition subSegmentDistances :: "real \<Rightarrow> real \<Rightarrow> real list" where
  "subSegmentDistances a b =
    (let subL = max 0 (b - a)
     in if subL \<le> 0 then []
        else let N = min 160 (max 10 \<lfloor>subL * 50\<rfloor>)
             in map (\<lambda>i. a + (real i / real_of_int N) * subL) [1..<nat N + 1])"

text \<open>All sampled distances of the segment, in the order of the loop over \<open>k\<close>.\<close>

definition sampleDistances :: "cplx \<Rightarrow> real \<Rightarrow> real list" where
  "sampleDistances q0 L =
    (let cuts = segmentCuts q0 L
     in concat (map (\<lambda>k. subSegmentDistances (cuts ! k) (cuts ! (k + 1))) [0..<length cuts - 1]))"

definition sampleSegment :: "params \<Rightarrow> path \<Rightarrow> real \<Rightarrow> path" where
  "sampleSegment pr path0 L =
    (let path = (if showPolarization pr
                 then polSampleLoop L (path0\<lparr>p_polSampleCountdown := p_polSampleCountdown path0 - L\<rparr>)
                 else path0);
         q0 = p_q path;
         aHere = jNorm (p_J path) / p_Jnorm path;
         ts = sampleDistances q0 L
     in path\<lparr>p_pts := p_pts path @ map (\<lambda>t. v_add (p_pos path) (v_multiplyScalar (p_dir path) t)) ts,
             p_dirs := p_dirs path @ map (\<lambda>t. p_dir path) ts,
             p_widths := p_widths path @ map (\<lambda>t. wFromQ (freeSpace q0 t) (p_lam path) (p_M2 path)) ts,
             p_amps := p_amps path @ map (\<lambda>t. aHere) ts\<rparr>)"

subsection \<open>propagation.js: computeGratingOrders\<close>

text \<open>The grating's normal \<open>n\<close> and its in-plane tangent \<open>t\<close> (Gram-Schmidt of local +X).\<close>

definition gratingNormal :: "element \<Rightarrow> vec3" where
  "gratingNormal el = v_normalize (mesh_normal el)"

definition gratingTangent :: "element \<Rightarrow> vec3" where
  "gratingTangent el = (let n = gratingNormal el; t = mesh_tangent el
                        in v_normalize (v_sub t (v_multiplyScalar n (v_dot t n))))"

definition gratingSinAlpha :: "element \<Rightarrow> vec3 \<Rightarrow> real" where
  "gratingSinAlpha el inDir = MathUtils_clamp (v_dot inDir (gratingTangent el)) (- 1) 1"

text \<open>The incidence angle \<^verbatim>\<open>alpha = atan2(sinAlpha, cosAlpha)\<close>.\<close>

definition gratingCosAlpha :: "element \<Rightarrow> vec3 \<Rightarrow> real" where
  "gratingCosAlpha el inDir = \<bar>MathUtils_clamp (v_dot inDir (gratingNormal el)) (- 1) 1\<bar>"

definition gratingAlpha :: "element \<Rightarrow> vec3 \<Rightarrow> real" where
  "gratingAlpha el inDir = Math_atan2 (gratingSinAlpha el inDir) (gratingCosAlpha el inDir)"

definition gratingSinBeta :: "element \<Rightarrow> vec3 \<Rightarrow> real \<Rightarrow> int \<Rightarrow> real" where
  "gratingSinBeta el inDir lam m =
    (let d = prop_d_um (el_props el) * (1 / 10 ^ 6)
     in gratingSinAlpha el inDir - (real_of_int m * lam / d))"

text \<open>The body of the loop over \<open>m\<close> after the test \<^verbatim>\<open>if (Math.abs(sinBeta) > 1) continue\<close>.\<close>

definition gratingOrderOut :: "element \<Rightarrow> vec3 \<Rightarrow> real \<Rightarrow> int \<Rightarrow> gratingOrder" where
  "gratingOrderOut el inDir lam m =
    (let n = gratingNormal el; t = gratingTangent el;
         d = prop_d_um (el_props el) * (1 / 10 ^ 6);
         fromSide = js_or (Math_sign (v_dot inDir n)) 1;
         sinBeta = gratingSinBeta el inDir lam m;
         cosBeta = sqrt (max 0 (1 - sinBeta * sinBeta));
         beta = Math_atan2 sinBeta cosBeta;
         betaDeg = MathUtils_radToDeg beta;
         nComp = (if prop_mode (el_props el) = ''reflective'' then - fromSide else fromSide) * cosBeta;
         dirOut = v_normalize (v_add (v_multiplyScalar n nComp) (v_multiplyScalar t sinBeta));
         disp = (if 1 / 10 ^ 12 < cosBeta
                 then Some (\<bar>- real_of_int m / (d * cosBeta)\<bar> * (180 / pi) * (1 / 10 ^ 9)) else None)
     in \<lparr>go_m = m, go_dir = dirOut, go_betaDeg = betaDeg, go_disp_deg_per_nm = disp\<rparr>)"

definition computeGratingOrders ::
  "element \<Rightarrow> vec3 \<Rightarrow> real \<Rightarrow> (nat \<rightharpoonup> gratingInfo) \<Rightarrow> gratingOrder list \<times> (nat \<rightharpoonup> gratingInfo)" where
  "computeGratingOrders el inDir lam info =
    (let alpha = gratingAlpha el inDir;
         alphaDeg = MathUtils_radToDeg alpha;
         M = max 0 \<lfloor>prop_orders (el_props el)\<rfloor>;
         out = map (gratingOrderOut el inDir lam)
                   (filter (\<lambda>m. \<not> 1 < \<bar>gratingSinBeta el inDir lam m\<bar>) [- M..M])
     in (out, info(el_id el \<mapsto>
           \<lparr>gi_alphaDeg = alphaDeg,
            gi_entries = map (\<lambda>ord. (go_m ord, go_betaDeg ord, go_disp_deg_per_nm ord)) out\<rparr>)))"

subsection \<open>propagation.js: the interactions of the work loop\<close>

text \<open>A path is pushed on the queue when its relative amplitude reaches the cutoff.\<close>

definition pushIfStrong :: "path \<Rightarrow> path list \<Rightarrow> path list" where
  "pushIfStrong branch qu = (if AMP_CUTOFF \<le> relAmp branch then qu @ [branch] else qu)"

definition angleOfIncidence :: "path \<Rightarrow> element \<Rightarrow> real" where
  "angleOfIncidence path el =
    (let nWorld_hit = v_normalize (mesh_normal el);
         cosTheta = \<bar>v_dot (p_dir path) nWorld_hit\<bar>
     in MathUtils_radToDeg (arccos (MathUtils_clamp cosTheta 0 1)))"

text \<open>Beam splitter: the transmitted and the reflected clone.\<close>

definition splitterTransmitted :: "element \<Rightarrow> path \<Rightarrow> path" where
  "splitterTransmitted el path =
    (let isPBS = prop_polarizing (el_props el);
         wantTransmit = (prop_polTransmit (el_props el) = ''Vertical'');
         t0 = (cloneBase path)\<lparr>p_dir := p_dir path, p_lastHit := Some (el_id el)\<rparr>;
         t1 = t0\<lparr>p_J :=
                (if isPBS
                 then (if wantTransmit then (Complex_new 0 0, Complex_clone (snd (p_J path)))
                       else (Complex_clone (fst (p_J path)), Complex_new 0 0))
                 else let R = min 1 (max 0 (js_nullish (prop_R (el_props el)) (1 / 2)));
                          T = 1 - R
                      in (Complex_mul (fst (p_J path)) (Num (sqrt T)),
                          Complex_mul (snd (p_J path)) (Num (sqrt T))))\<rparr>
     in nudge (pushPoint t1))"

definition splitterReflected :: "element \<Rightarrow> path \<Rightarrow> path" where
  "splitterReflected el path =
    (let isPBS = prop_polarizing (el_props el);
         wantTransmit = (prop_polTransmit (el_props el) = ''Vertical'');
         r0 = (cloneBase path)\<lparr>p_dir := reflectAcrossElementNormal (p_dir path) el,
                                p_lastHit := Some (el_id el)\<rparr>;
         r1 = r0\<lparr>p_J :=
                (if isPBS
                 then (if wantTransmit then (Complex_clone (fst (p_J path)), Complex_new 0 0)
                       else (Complex_new 0 0, Complex_clone (snd (p_J path))))
                 else let R = min 1 (max 0 (js_nullish (prop_R (el_props el)) (1 / 2)));
                          phase = 1
                      in (Complex_mul (fst (p_J path)) (Num (sqrt R * phase)),
                          Complex_mul (snd (p_J path)) (Num (sqrt R * (- 1 * phase)))))\<rparr>
     in nudge (pushPoint r1))"

definition beamSplitterBranch :: "element \<Rightarrow> real \<Rightarrow> path \<Rightarrow> engine \<Rightarrow> engine" where
  "beamSplitterBranch el aoi path eng =
    (let transmitted = splitterTransmitted el path;
         reflected = splitterReflected el path;
         tI = (jNorm (p_J transmitted) / p_Jnorm transmitted) ^ 2;
         rI = (jNorm (p_J reflected) / p_Jnorm reflected) ^ 2;
         best = (if rI \<le> tI then transmitted else reflected);
         info = beamReadout aoi (p_dir path) (p_pos best) (p_q best) (p_lam best) (p_M2 best) (p_J best)
                  (if rI \<le> tI then tI else rI)
     in eng\<lparr>elementLastInfo := (elementLastInfo eng)(el_id el \<mapsto> info),
            queue := pushIfStrong reflected (pushIfStrong transmitted (queue eng))\<rparr>)"

text \<open>Mirror: effective reflectance and transmittance, then up to two clones.\<close>

definition inBand :: "real \<Rightarrow> (real \<times> real) option \<Rightarrow> bool" where
  "inBand nm band = (case band of None \<Rightarrow> False | Some (lo, hi) \<Rightarrow> lo \<le> nm \<and> nm \<le> hi)"

definition mirrorCoefficients :: "element \<Rightarrow> path \<Rightarrow> real \<times> real" where
  "mirrorCoefficients el path =
    (let refl = min 1 (max 0 (js_nullish (prop_refl (el_props el)) 1));
         T = 1 - refl
     in if prop_dichroic (el_props el)
        then let nm = p_lam path * 10 ^ 9
             in if inBand nm (prop_reflBand_nm (el_props el)) then (1, 0)
                else if inBand nm (prop_transBand_nm (el_props el)) then (0, 1)
                else (0, 1)
        else (refl, T))"

definition mirrorTransmitted :: "element \<Rightarrow> real \<Rightarrow> path \<Rightarrow> path" where
  "mirrorTransmitted el T path =
    (let t0 = (cloneBase path)\<lparr>p_dir := p_dir path, p_lastHit := Some (el_id el)\<rparr>;
         t1 = t0\<lparr>p_J := (Complex_mul (fst (p_J path)) (Num (sqrt T)),
                          Complex_mul (snd (p_J path)) (Num (sqrt T)))\<rparr>;
         t2 = (if \<not> prop_flat (el_props el)
               then (case el_abcdTransmit el of None \<Rightarrow> t1 | Some g \<Rightarrow> t1\<lparr>p_q := g (p_q t1)\<rparr>)
               else t1)
     in nudge (pushPoint t2))"

definition mirrorReflected :: "element \<Rightarrow> real \<Rightarrow> path \<Rightarrow> path" where
  "mirrorReflected el rfl path =
    (let r0 = (cloneBase path)\<lparr>p_dir := reflectAcrossElementNormal (p_dir path) el,
                                p_lastHit := Some (el_id el)\<rparr>;
         r1 = (if \<not> prop_flat (el_props el) then r0\<lparr>p_q := el_abcd el (p_q r0)\<rparr> else r0);
         phase = 1;
         r2 = r1\<lparr>p_J := (Complex_mul (fst (p_J path)) (Num (sqrt rfl * phase)),
                          Complex_mul (snd (p_J path)) (Num (sqrt rfl * (- 1 * phase))))\<rparr>
     in nudge (pushPoint r2))"

definition mirrorBranch :: "element \<Rightarrow> real \<Rightarrow> path \<Rightarrow> engine \<Rightarrow> engine" where
  "mirrorBranch el aoi path eng =
    (let refl = fst (mirrorCoefficients el path);
         T = snd (mirrorCoefficients el path);
         transmitted = (if 0 < T then Some (mirrorTransmitted el T path) else None);
         qu1 = (case transmitted of None \<Rightarrow> queue eng | Some t \<Rightarrow> pushIfStrong t (queue eng));
         reflected = (if 0 < refl then Some (mirrorReflected el refl path) else None);
         qu2 = (case reflected of None \<Rightarrow> qu1 | Some r \<Rightarrow> pushIfStrong r qu1);
         best0 = (None :: path option, - 1 :: real);
         best1 = (case transmitted of None \<Rightarrow> best0
                  | Some t \<Rightarrow> let It = (jNorm (p_J t) / p_Jnorm t) ^ 2
                              in if snd best0 < It then (Some t, It) else best0);
         best2 = (case reflected of None \<Rightarrow> best1
                  | Some r \<Rightarrow> let Ir = (jNorm (p_J r) / p_Jnorm path) ^ 2
                              in if snd best1 < Ir then (Some r, Ir) else best1)
     in eng\<lparr>queue := qu2,
            elementLastInfo :=
              (case fst best2 of None \<Rightarrow> elementLastInfo eng
               | Some best \<Rightarrow> (elementLastInfo eng)(el_id el \<mapsto>
                   beamReadout aoi (p_dir path) (p_pos best) (p_q best) (p_lam best) (p_M2 best)
                     (p_J best) (snd best2)))\<rparr>)"

text \<open>Grating: one clone per computed order that is not hidden.\<close>

definition gratingBranchPath :: "element \<Rightarrow> real \<Rightarrow> path \<Rightarrow> gratingOrder \<Rightarrow> path" where
  "gratingBranchPath el gain path ord =
    (let isReflective = (prop_mode (el_props el) = ''reflective'');
         b0 = (cloneBase path)\<lparr>p_dir := go_dir ord, p_lastHit := Some (el_id el)\<rparr>;
         b1 = b0\<lparr>p_J :=
                (if isReflective
                 then let phase = 1
                      in (Complex_mul (fst (p_J path)) (Num (gain * phase)),
                          Complex_mul (snd (p_J path)) (Num (gain * (- 1 * phase))))
                 else (Complex_mul (fst (p_J path)) (Num gain),
                       Complex_mul (snd (p_J path)) (Num gain)))\<rparr>
     in nudge (pushPoint b1))"

definition gratingReadout :: "real \<Rightarrow> vec3 \<Rightarrow> path \<Rightarrow> real \<Rightarrow> readout" where
  "gratingReadout aoi incoming branch I =
    (beamReadout aoi incoming (p_pos branch) (p_q branch) (p_lam branch) (p_M2 branch) (p_J branch) I)
      \<lparr>r_Irel := None, r_I := Some I\<rparr>"

text \<open>
  The loop \<^verbatim>\<open>for (const o of orders)\<close>; its state is the queue and the strongest branch so far
  (\<^verbatim>\<open>_bestForThisGrating\<close>, with its intensity).
\<close>

fun gratingLoop ::
  "element \<Rightarrow> real \<Rightarrow> real \<Rightarrow> path \<Rightarrow> gratingOrder list \<Rightarrow> path list \<times> (real \<times> readout) option
     \<Rightarrow> path list \<times> (real \<times> readout) option" where
  "gratingLoop el aoi gain path [] st = st"
| "gratingLoop el aoi gain path (ord # ords) st =
    (if prop_visibleOrders (el_props el) (go_m ord) = Some False
     then gratingLoop el aoi gain path ords st
     else let branch = gratingBranchPath el gain path ord;
              I = (jNorm (p_J branch) / p_Jnorm branch) ^ 2;
              best = (case snd st of
                        None \<Rightarrow> Some (I, gratingReadout aoi (p_dir path) branch I)
                      | Some b \<Rightarrow> if fst b < I then Some (I, gratingReadout aoi (p_dir path) branch I)
                                  else Some b)
          in gratingLoop el aoi gain path ords (pushIfStrong branch (fst st), best))"

text \<open>The grating branch; \<open>None\<close> for the queue state means no order was computed.\<close>

definition gratingBranch :: "element \<Rightarrow> real \<Rightarrow> path \<Rightarrow> engine \<Rightarrow> engine" where
  "gratingBranch el aoi path eng =
    (let computed = computeGratingOrders el (p_dir path) (p_lam path) (gratingLastInfo eng);
         orders = fst computed;
         eng1 = eng\<lparr>gratingLastInfo := snd computed\<rparr>
     in if orders = [] then eng1
        else let gain = 1 / sqrt (real (length orders));
                 st = gratingLoop el aoi gain path orders (queue eng1, None)
             in eng1\<lparr>queue := fst st,
                     elementLastInfo :=
                       (case snd st of None \<Rightarrow> elementLastInfo eng1
                        | Some b \<Rightarrow> (elementLastInfo eng1)(el_id el \<mapsto> snd b))\<rparr>)"

text \<open>Detector (multimeter): read-only, the path goes on.\<close>

definition multimeterReadout :: "element \<Rightarrow> real \<Rightarrow> path \<Rightarrow> readout" where
  "multimeterReadout el aoi path =
    (let aRel = jNorm (p_J path) / p_Jnorm path;
         Irel = aRel * aRel;
         lamnm = p_lam path * 10 ^ 9
     in (beamReadout aoi (p_dir path) (p_pos path) (p_q path) (p_lam path) (p_M2 path) (p_J path) Irel)
          \<lparr>r_wavelength_nm := Some lamnm\<rparr>)"

definition multimeterBranch :: "element \<Rightarrow> real \<Rightarrow> path \<Rightarrow> engine \<Rightarrow> path \<times> engine" where
  "multimeterBranch el aoi path eng =
    (nudge (pushPoint (path\<lparr>p_lastHit := Some (el_id el)\<rparr>)),
     eng\<lparr>meterLastInfo := (meterLastInfo eng)(el_id el \<mapsto> multimeterReadout el aoi path),
          meterUpdated := True\<rparr>)"

text \<open>Thin lens: q through the element's ABCD, direction through the two-axis kick.\<close>

definition lensDirection :: "element \<Rightarrow> path \<Rightarrow> vec3" where
  "lensDirection el path =
    (let n = v_normalize (mesh_normal el);
         uSeed0 = Vector3_new 0 1 0;
         uSeed = (if 999 / 1000 < \<bar>v_dot uSeed0 n\<bar> then Vector3_new 1 0 0 else uSeed0);
         u = v_normalize (v_sub uSeed (v_multiplyScalar n (v_dot uSeed n)));
         v = v_normalize (v_crossVectors n u);
         c = mesh_position el;
         r = v_sub (p_pos path) c;
         ru = v_dot r u;
         rv = v_dot r v;
         denom = v_dot (p_dir path) n;
         denomAbs = max (1 / 10 ^ 6) \<bar>denom\<bar>;
         sgn = (if 0 \<le> denom then 1 else - 1);
         su = v_dot (p_dir path) u / denomAbs;
         sv = v_dot (p_dir path) v / denomAbs;
         f = js_or (prop_f (el_props el)) 1;
         su2 = su - (ru / f);
         sv2 = sv - (rv / f)
     in v_normalize (v_add (v_add (v_multiplyScalar n sgn) (v_multiplyScalar u su2))
                           (v_multiplyScalar v sv2)))"

definition lensBranch :: "element \<Rightarrow> real \<Rightarrow> vec3 \<Rightarrow> path \<Rightarrow> engine \<Rightarrow> path \<times> engine" where
  "lensBranch el aoi incoming path0 eng =
    (let path1 = path0\<lparr>p_q := el_abcd el (p_q path0)\<rparr>;
         path = path1\<lparr>p_dir := lensDirection el path1\<rparr>;
         aRel = jNorm (p_J path) / p_Jnorm path;
         info = beamReadout aoi incoming (p_pos path) (p_q path) (p_lam path) (p_M2 path) (p_J path)
                  (aRel * aRel)
     in (nudge (pushPoint (path\<lparr>p_lastHit := Some (el_id el)\<rparr>)),
         eng\<lparr>elementLastInfo := (elementLastInfo eng)(el_id el \<mapsto> info)\<rparr>))"

text \<open>Every other element (polarizer, waveplate, Faraday rotator, ...).\<close>

definition otherBranch :: "element \<Rightarrow> real \<Rightarrow> vec3 \<Rightarrow> path \<Rightarrow> engine \<Rightarrow> path \<times> engine" where
  "otherBranch el aoi incoming path0 eng =
    (let path1 = path0\<lparr>p_q := el_abcd el (p_q path0)\<rparr>;
         path = path1\<lparr>p_J := (case el_jones el of None \<Rightarrow> p_J path1
                                | Some j \<Rightarrow> j (p_J path1) (p_dir path1))\<rparr>;
         aRel = jNorm (p_J path) / p_Jnorm path;
         info = beamReadout aoi incoming (p_pos path) (p_q path) (p_lam path) (p_M2 path) (p_J path)
                  (aRel * aRel)
     in (pushPoint (path\<lparr>p_lastHit := None\<rparr>),
         eng\<lparr>elementLastInfo := (elementLastInfo eng)(el_id el \<mapsto> info)\<rparr>))"

subsection \<open>propagation.js: the work loop of recompute\<close>

text \<open>How one pass of the \<^verbatim>\<open>for\<close> loop ends: \<^verbatim>\<open>break\<close>, or on to the next step.\<close>

datatype flow = Break | Next

definition raycastHits :: "scene \<Rightarrow> path \<Rightarrow> hit list" where
  "raycastHits sc path =
    filter (\<lambda>h. Some (el_id (h_element h)) \<noteq> p_lastHit path)
      (intersectObjects sc (p_pos path) (p_dir path) (1 / 10 ^ 8)
         (max (1 / 10 ^ 5) (p_maxLen path - p_traveled path)))"

text \<open>Lines "propagate to plane": sample up to the hit, advance, move to the hit point.\<close>

definition propagateToHit :: "params \<Rightarrow> path \<Rightarrow> hit \<Rightarrow> path" where
  "propagateToHit pr path0 h =
    (let L = h_distance h;
         path = sampleSegment pr path0 L
     in path\<lparr>p_traveled := p_traveled path + L, p_pos := h_point h, p_q := freeSpace (p_q path) L\<rparr>)"

text \<open>The dispatch on the type of the element that was hit.\<close>

definition interact :: "element \<Rightarrow> path \<Rightarrow> engine \<Rightarrow> flow \<times> path \<times> engine" where
  "interact el path eng =
    (let aoi_deg_hit = angleOfIncidence path el;
         incomingDir_hit = p_dir path
     in if el_type el = ''beamBlock'' then (Break, path, eng)
        else if el_type el = ''beamSplitter'' then (Break, path, beamSplitterBranch el aoi_deg_hit path eng)
        else if el_type el = ''mirror'' then (Break, path, mirrorBranch el aoi_deg_hit path eng)
        else if el_type el = ''grating'' then (Break, path, gratingBranch el aoi_deg_hit path eng)
        else if el_type el = ''multimeter''
          then (Next, multimeterBranch el aoi_deg_hit path eng)
        else if el_type el = ''lens''
          then (Next, lensBranch el aoi_deg_hit incomingDir_hit path eng)
        else (Next, otherBranch el aoi_deg_hit incomingDir_hit path eng))"

text \<open>The body of the \<^verbatim>\<open>for\<close> loop.\<close>

definition stepBody :: "scene \<Rightarrow> params \<Rightarrow> path \<Rightarrow> engine \<Rightarrow> flow \<times> path \<times> engine" where
  "stepBody sc pr path eng =
    (case raycastHits sc path of
       [] \<Rightarrow> let L = p_maxLen path - p_traveled path;
                 path1 = sampleSegment pr path L
             in (Break, path1\<lparr>p_traveled := p_traveled path1 + L\<rparr>, eng)
     | h # _ \<Rightarrow> interact (h_element h) (propagateToHit pr path h) eng)"

text \<open>
  The loop \<^verbatim>\<open>for (step = 0; step < maxSteps && path.traveled < path.maxLen; step++)\<close>, from the
  value \<open>step\<close> of its counter. The first component of the result is the number of passes the
  loop has made when it is left.
\<close>

function march :: "scene \<Rightarrow> params \<Rightarrow> nat \<Rightarrow> path \<Rightarrow> engine \<Rightarrow> nat \<times> path \<times> engine" where
  "march sc pr step path eng =
    (if step < maxSegments pr \<and> p_traveled path < p_maxLen path
     then let r = stepBody sc pr path eng
          in if fst r = Break then (Suc step, snd r)
             else march sc pr (Suc step) (fst (snd r)) (snd (snd r))
     else (step, path, eng))"
  by pat_completeness auto
termination
  by (relation "measure (\<lambda>(sc, pr, step, path, eng). maxSegments pr - step)") auto

text \<open>
  The states the \<^verbatim>\<open>for\<close> loop passes through at the head of its body, as triples of the
  counter, the ray and the engine state: from a state \<open>st\<close> the loop reaches \<open>st\<close>, and it
  reaches the state after a pass of the body that ended without \<^verbatim>\<open>break\<close> from a state it
  reaches in which the loop condition holds.
\<close>

inductive marchReaches :: "scene \<Rightarrow> params \<Rightarrow> nat \<times> path \<times> engine \<Rightarrow> nat \<times> path \<times> engine \<Rightarrow> bool"
  for sc :: scene and pr :: params and st :: "nat \<times> path \<times> engine" where
  reach_start: "marchReaches sc pr st st"
| reach_next: "marchReaches sc pr st (step, path, eng) \<Longrightarrow> step < maxSegments pr \<Longrightarrow>
     p_traveled path < p_maxLen path \<Longrightarrow> stepBody sc pr path eng = (Next, path', eng') \<Longrightarrow>
     marchReaches sc pr st (Suc step, path', eng')"

text \<open>
  The body of the work loop for the path \<^verbatim>\<open>queue.shift()\<close> has returned (\<open>eng\<close> is the
  state with that path off the queue): march it, then push it on the completed paths.
\<close>

definition workStep :: "scene \<Rightarrow> params \<Rightarrow> path list \<Rightarrow> path \<Rightarrow> engine \<Rightarrow> path list \<times> engine" where
  "workStep sc pr completedPaths path eng =
    (let r = march sc pr 0 path eng
     in (completedPaths @ [fst (snd r)], snd (snd r)))"

text \<open>The condition \<^verbatim>\<open>queue.length && (completedPaths.length + queue.length) < MAX_BEAMS\<close>.\<close>

definition workGuard :: "path list \<Rightarrow> engine \<Rightarrow> bool" where
  "workGuard completedPaths eng =
    (queue eng \<noteq> [] \<and> length completedPaths + length (queue eng) < MAX_BEAMS)"

text \<open>
  One pass of the body of the work loop, on the pair of the completed paths and the engine
  state: \<^verbatim>\<open>queue.shift()\<close>, then the rest of the body. The loop enters its body with a queue
  that is not empty.
\<close>

definition workPass :: "scene \<Rightarrow> params \<Rightarrow> path list \<times> engine \<Rightarrow> path list \<times> engine" where
  "workPass sc pr st =
    (case queue (snd st) of
       [] \<Rightarrow> st
     | path # rest \<Rightarrow> workStep sc pr (fst st) path ((snd st)\<lparr>queue := rest\<rparr>))"

function workLoop :: "scene \<Rightarrow> params \<Rightarrow> path list \<Rightarrow> engine \<Rightarrow> path list \<times> engine" where
  "workLoop sc pr completedPaths eng =
    (if workGuard completedPaths eng
     then workLoop sc pr (fst (workPass sc pr (completedPaths, eng)))
                         (snd (workPass sc pr (completedPaths, eng)))
     else (completedPaths, eng))"
  by pat_completeness auto
termination
  by (relation "measure (\<lambda>(sc, pr, completedPaths, eng). MAX_BEAMS - length completedPaths)")
     (auto simp add: workGuard_def workPass_def workStep_def Let_def split: list.splits)

text \<open>\<^verbatim>\<open>buildRibbon\<close> (ribbon.js) returns no mesh for fewer than two points.\<close>

definition hasRibbon :: "path \<Rightarrow> bool" where
  "hasRibbon path = (\<not> length (p_pts path) < 2)"

text \<open>
  \<^verbatim>\<open>recompute\<close>: seed every active source (\<open>implicit\<close> is the temporary source added when
  there is none), run the work loop from an empty list of completed paths, and hand the
  completed paths to the ribbon builder. \<^verbatim>\<open>elementLastInfo\<close> is cleared first; the detector
  and grating maps are kept from the call before. The result: the synchronised sources, the
  completed paths, the paths a ribbon is drawn for, and the final engine state.
\<close>

definition recompute ::
  "scene \<Rightarrow> params \<Rightarrow> (string \<Rightarrow> cplx) \<Rightarrow> source \<Rightarrow> source list \<Rightarrow> (nat \<rightharpoonup> readout)
     \<Rightarrow> (nat \<rightharpoonup> gratingInfo) \<Rightarrow> source list \<times> path list \<times> path list \<times> engine" where
  "recompute sc pr parseC implicit sources meterInfo gratingInfos =
    (let activeSources = (if sources \<noteq> [] then sources else [implicit]);
         seeded = map (seedSource parseC) activeSources;
         eng0 = \<lparr>queue = concat (map snd seeded), elementLastInfo = Map.empty,
                 meterLastInfo = meterInfo, gratingLastInfo = gratingInfos, meterUpdated = False\<rparr>;
         r = workLoop sc pr [] eng0
     in (map fst seeded, fst r, filter hasRibbon (fst r), snd r))"

subsection \<open>Concrete inputs\<close>

text \<open>
  A source with the default properties of \<^verbatim>\<open>addSource\<close>, at the origin and looking along +Z;
  wavelength (nm), bandwidth, sample count, waist (um), Rayleigh range (mm), beam quality and
  the last-edited flag are the arguments.
\<close>

definition testSource ::
  "real \<Rightarrow> real option \<Rightarrow> real option \<Rightarrow> real \<Rightarrow> real \<Rightarrow> real \<Rightarrow> string \<Rightarrow> source" where
  "testSource lam bw n w z m ed =
    \<lparr>props = \<lparr>wavelength_nm = lam, bandwidth_nm = bw, specSamples = n, waist_w0_um = w,
               rayleigh_mm = z, forward_cm = 100, backward_cm = 0, intensity_rel = Some 1,
               M2 = Some m, polPreset = ''Linear X'', customPolEx = ''1+0i'', customPolEy = ''0+0i''\<rparr>,
     lastEdited = ed, group_position = Vector3_new 0 0 0, group_forward = Vector3_new 0 0 1\<rparr>"

text \<open>A parser for custom polarization strings that reads every string as 1.\<close>

definition parseOne :: "string \<Rightarrow> cplx" where
  "parseOne str = Complex_new 1 0"

text \<open>A ray at the origin, along +Z, at its waist, with 1 m to travel.\<close>

definition testPath :: path where
  "testPath = \<lparr>p_pos = Vector3_new 0 0 0, p_dir = Vector3_new 0 0 1, p_q = Complex_new 0 1,
      p_J = (Complex_new 1 0, Complex_new 0 0), p_Jnorm = 1, p_lam = 1 / 10 ^ 6, p_M2 = 1,
      p_traveled = 0, p_lastHit = None, p_maxLen = 1, p_pts = [Vector3_new 0 0 0],
      p_dirs = [Vector3_new 0 0 1], p_widths = [wFromQ (Complex_new 0 1) (1 / 10 ^ 6) 1],
      p_amps = [1], p_polSamples = [], p_polSampleCountdown = POL_SPACING / 2\<rparr>"

text \<open>An element of a given type with the factory defaults, facing the ray at z = 0.5 m.\<close>

definition testElement :: "nat \<Rightarrow> string \<Rightarrow> element" where
  "testElement i ty =
    \<lparr>el_id = i, el_type = ty,
     el_props = \<lparr>prop_polarizing = False, prop_polTransmit = ''Vertical'', prop_R = Some (1 / 2),
                 prop_refl = Some 1, prop_dichroic = False, prop_reflBand_nm = None,
                 prop_transBand_nm = None, prop_flat = True, prop_mode = ''reflective'',
                 prop_d_um = 1, prop_orders = 3, prop_visibleOrders = (\<lambda>m. None), prop_f = 1 / 10\<rparr>,
     el_abcd = (\<lambda>qv. qv), el_abcdTransmit = None, el_jones = Some (\<lambda>j d. j),
     mesh_normal = Vector3_new 0 0 1, mesh_tangent = Vector3_new 1 0 0,
     mesh_position = Vector3_new 0 0 (1 / 2)\<rparr>"

text \<open>An engine state with the given queue and empty readout maps.\<close>

definition testEngine :: "path list \<Rightarrow> engine" where
  "testEngine qu = \<lparr>queue = qu, elementLastInfo = Map.empty, meterLastInfo = Map.empty,
                     gratingLastInfo = Map.empty, meterUpdated = False\<rparr>"

text \<open>
  A scene with one element of the given type at z = 0.5 m: the ray from the origin along +Z
  hits it at distance 0.5 m.
\<close>

definition testHit :: "string \<Rightarrow> hit" where
  "testHit ty = \<lparr>h_distance = 1 / 2, h_point = Vector3_new 0 0 (1 / 2), h_element = testElement 1 ty\<rparr>"

definition testScene :: "string \<Rightarrow> scene" where
  "testScene ty = \<lparr>intersectObjects = (\<lambda>origin direction near far.
      if origin = Vector3_new 0 0 0 \<and> direction = Vector3_new 0 0 1 \<and> near \<le> 1 / 2 \<and> 1 / 2 \<le> far
      then [testHit ty] else [])\<rparr>"

definition testParams :: params where
  "testParams = \<lparr>maxSegments = 60, showPolarization = False\<rparr>"

text \<open>The run of \<^verbatim>\<open>recompute\<close> on the scene with a beam block and one default source.\<close>

definition blockRun :: "source list \<times> path list \<times> path list \<times> engine" where
  "blockRun = recompute (testScene ''beamBlock'') testParams parseOne
                (testSource 1000 None None 200 0 1 ''w0'')
                [testSource 1000 None None 200 0 1 ''w0''] Map.empty Map.empty"

text \<open>
  A scene with a detector (id 2) at z = 0.25 m and a beam block (id 1) at z = 0.5 m: the ray
  from the origin along +Z hits the detector first; the ray that leaves the detector, from the
  hit point nudged by \<open>1e-6\<close>, hits the beam block. \<open>afterMeter\<close> is the first pass of the
  loop body for the ray at the origin.
\<close>

definition meterHit :: hit where
  "meterHit = \<lparr>h_distance = 1 / 4, h_point = Vector3_new 0 0 (1 / 4),
               h_element = testElement 2 ''multimeter''\<rparr>"

definition blockHitAfter :: hit where
  "blockHitAfter = \<lparr>h_distance = 1 / 4 - 1 / 10 ^ 6, h_point = Vector3_new 0 0 (1 / 2),
                    h_element = testElement 1 ''beamBlock''\<rparr>"

definition twoHitScene :: scene where
  "twoHitScene = \<lparr>intersectObjects = (\<lambda>origin direction near far.
      if origin = Vector3_new 0 0 0 \<and> direction = Vector3_new 0 0 1 \<and> near \<le> 1 / 4 \<and> 1 / 2 \<le> far
      then [meterHit, testHit ''beamBlock'']
      else if origin = Vector3_new 0 0 (1 / 4 + 1 / 10 ^ 6) \<and> direction = Vector3_new 0 0 1
              \<and> near \<le> 1 / 4 - 1 / 10 ^ 6 \<and> 1 / 4 - 1 / 10 ^ 6 \<le> far
      then [blockHitAfter]
      else [])\<rparr>"

definition afterMeter :: "flow \<times> path \<times> engine" where
  "afterMeter = stepBody twoHitScene testParams testPath (testEngine [])"

subsection \<open>The spectral profile in the words of the specification\<close>



declare polSampleLoop.simps [simp del]
declare march.simps [simp del]
declare workLoop.simps [simp del]

section \<open>Properties\<close>

subsection \<open>Complex algebra and free-space propagation\<close>

lemma freeSpace_eq: "freeSpace q L = Complex_new (re q + L) (im q)"
  by (simp add: freeSpace_def Complex_mul_def Complex_add_def Complex_div_def Complex_den_def
      Complex_clone_def Complex_new_def js_or_def Let_def)

text \<open>
  C1. For every beam parameter \<open>q1\<close> with positive imaginary part and every distance
  \<open>L \<ge> 0\<close>, free-space propagation returns \<open>q1 + L\<close>: the imaginary part (the Rayleigh range)
  is kept and the real part grows by \<open>L\<close>.
\<close>

theorem freeSpace_adds_distance:
  assumes "0 < im q1" and "0 \<le> L"
  shows "im (freeSpace q1 L) = im q1 \<and> re (freeSpace q1 L) = re q1 + L"
  by (simp add: freeSpace_eq Complex_new_def)

theorem freeSpace_adds_distance_witness:
  "0 < im (Complex_new 3 2) \<and> (0::real) \<le> 5 \<and>
   im (freeSpace (Complex_new 3 2) 5) = 2 \<and> re (freeSpace (Complex_new 3 2) 5) = 8"
  using freeSpace_adds_distance [of "Complex_new 3 2" 5] by (simp add: Complex_new_def)

text \<open>
  C9, as the code has it. The denominator of \<^verbatim>\<open>div\<close> and \<^verbatim>\<open>inv\<close> is never zero: it is
  \<open>1e-18\<close> exactly when the divisor is zero, and the squared magnitude itself otherwise,
  however small. Dividing by zero gives zero.
\<close>

theorem Complex_den_guard:
  "0 < Complex_den b \<and>
   Complex_den b = (if re b = 0 \<and> im b = 0 then 1 / 10 ^ 18 else re b * re b + im b * im b) \<and>
   Complex_div a (Cx (Complex_new 0 0)) = Complex_new 0 0 \<and>
   Complex_inv (Complex_new 0 0) = Complex_new 0 0"
proof -
  have nn: "0 \<le> re b * re b + im b * im b" by simp
  have z: "re b * re b + im b * im b = 0 \<longleftrightarrow> re b = 0 \<and> im b = 0"
    by (simp add: sum_squares_eq_zero_iff)
  have pos: "re b * re b + im b * im b \<noteq> 0 \<Longrightarrow> 0 < re b * re b + im b * im b"
    using nn by linarith
  have d: "0 < Complex_den b \<and>
      Complex_den b = (if re b = 0 \<and> im b = 0 then 1 / 10 ^ 18 else re b * re b + im b * im b)"
    using pos z by (auto simp add: Complex_den_def js_or_def simp del: sum_squares_eq_zero_iff)
  have e: "Complex_div a (Cx (Complex_new 0 0)) = Complex_new 0 0"
    by (simp add: Complex_div_def Complex_den_def Complex_new_def js_or_def)
  have f: "Complex_inv (Complex_new 0 0) = Complex_new 0 0"
    by (simp add: Complex_inv_def Complex_den_def Complex_new_def js_or_def)
  show ?thesis using d e f by blast
qed

theorem Complex_den_guard_witness:
  "Complex_den (Complex_new 0 0) = 1 / 10 ^ 18 \<and> Complex_den (Complex_new 3 4) = 25"
  using Complex_den_guard [of "Complex_new 0 0"] Complex_den_guard [of "Complex_new 3 4"]
  by (simp add: Complex_new_def)

text \<open>
  C9 as stated fails: for the divisor \<open>1e-10\<close> the squared magnitude \<open>1e-20\<close> is below
  \<open>1e-18\<close> and is used as it is, so that \<open>1 / 1e-10\<close> is \<open>1e10\<close> (a floor would give \<open>1e8\<close>).
\<close>

theorem Complex_den_not_floored:
  "re (Complex_new (1 / 10 ^ 10) 0) * re (Complex_new (1 / 10 ^ 10) 0)
     + im (Complex_new (1 / 10 ^ 10) 0) * im (Complex_new (1 / 10 ^ 10) 0) < 1 / 10 ^ 18 \<and>
   Complex_den (Complex_new (1 / 10 ^ 10) 0) = 1 / 10 ^ 20 \<and>
   Complex_den (Complex_new (1 / 10 ^ 10) 0) \<noteq> 1 / 10 ^ 18 \<and>
   Complex_div (Complex_new 1 0) (Cx (Complex_new (1 / 10 ^ 10) 0)) = Complex_new (10 ^ 10) 0"
  by (simp add: Complex_den_def Complex_div_def Complex_new_def js_or_def)

subsection \<open>Waist and Rayleigh range\<close>

lemma sync_w0:
  "lastEdited s = ''w0'' \<Longrightarrow> rayleigh_mm (props (syncSourceW0ZR s)) =
     (pi * max (1 / 10 ^ 9) (waist_w0_um (props s) * (1 / 10 ^ 6))
         * max (1 / 10 ^ 9) (waist_w0_um (props s) * (1 / 10 ^ 6))
         / (wavelength_nm (props s) * (1 / 10 ^ 9)))
       / max 1 (js_nullish (M2 (props s)) 1) * 10 ^ 3"
  by (simp add: syncSourceW0ZR_def Let_def)

lemma sync_zR:
  "lastEdited s \<noteq> ''w0'' \<Longrightarrow> waist_w0_um (props (syncSourceW0ZR s)) =
     sqrt (max (1 / 10 ^ 12) (rayleigh_mm (props s) * (1 / 10 ^ 3))
             * (wavelength_nm (props s) * (1 / 10 ^ 9))
             * max 1 (js_nullish (M2 (props s)) 1) / pi) * 10 ^ 6"
  by (simp add: syncSourceW0ZR_def Let_def)

lemma sync_other:
  "lastEdited (syncSourceW0ZR s) = lastEdited s"
  "wavelength_nm (props (syncSourceW0ZR s)) = wavelength_nm (props s)"
  "M2 (props (syncSourceW0ZR s)) = M2 (props s)"
  "lastEdited s = ''w0'' \<Longrightarrow> waist_w0_um (props (syncSourceW0ZR s)) = waist_w0_um (props s)"
  "lastEdited s \<noteq> ''w0'' \<Longrightarrow> rayleigh_mm (props (syncSourceW0ZR s)) = rayleigh_mm (props s)"
  by (simp_all add: syncSourceW0ZR_def Let_def)

lemma makeSeed_q:
  "im (p_q (makeSeed parseC s dir maxLen lam weight)) =
     (if lastEdited s = ''w0''
      then (pi * max (1 / 10 ^ 9) (waist_w0_um (props s) * (1 / 10 ^ 6))
               * max (1 / 10 ^ 9) (waist_w0_um (props s) * (1 / 10 ^ 6)) / lam)
             / max 1 (js_nullish (M2 (props s)) 1)
      else max (1 / 10 ^ 12) (rayleigh_mm (props s) * (1 / 10 ^ 3)))"
  by (simp add: makeSeed_def Let_def Complex_clone_def Complex_new_def)

lemma sync_w0_relation:
  assumes "lastEdited s = ''w0''" "0 < wavelength_nm (props s)" "1 / 10 ^ 3 \<le> waist_w0_um (props s)"
    "M2 (props s) = Some m" "1 \<le> m"
  shows "rayleigh_mm (props (syncSourceW0ZR s)) * (1 / 10 ^ 3) =
     pi * (waist_w0_um (props s) * (1 / 10 ^ 6))\<^sup>2 / (m * (wavelength_nm (props s) * (1 / 10 ^ 9)))"
proof -
  have w: "max (1 / 10 ^ 9) (waist_w0_um (props s) * (1 / 10 ^ 6)) = waist_w0_um (props s) * (1 / 10 ^ 6)"
    using assms(3) by (simp add: max_def)
  have m: "max 1 (js_nullish (M2 (props s)) 1) = m"
    using assms(4,5) by (simp add: js_nullish_def max_def)
  show ?thesis unfolding sync_w0[OF assms(1)] w m using assms(2,5)
    by (simp add: power2_eq_square field_simps)
qed

lemma sync_zR_relation:
  assumes "lastEdited s \<noteq> ''w0''" "0 < wavelength_nm (props s)" "1 / 10 ^ 9 \<le> rayleigh_mm (props s)"
    "M2 (props s) = Some m" "1 \<le> m"
  shows "rayleigh_mm (props s) * (1 / 10 ^ 3) =
     pi * (waist_w0_um (props (syncSourceW0ZR s)) * (1 / 10 ^ 6))\<^sup>2
       / (m * (wavelength_nm (props s) * (1 / 10 ^ 9)))"
proof -
  have z: "max (1 / 10 ^ 12) (rayleigh_mm (props s) * (1 / 10 ^ 3)) = rayleigh_mm (props s) * (1 / 10 ^ 3)"
    using assms(3) by (simp add: max_def)
  have m: "max 1 (js_nullish (M2 (props s)) 1) = m"
    using assms(4,5) by (simp add: js_nullish_def max_def)
  have nn: "0 \<le> rayleigh_mm (props s) * (1 / 10 ^ 3) * (wavelength_nm (props s) * (1 / 10 ^ 9)) * m / pi"
    using assms(2,3,5) by simp
  have "(waist_w0_um (props (syncSourceW0ZR s)) * (1 / 10 ^ 6))\<^sup>2 =
     rayleigh_mm (props s) * (1 / 10 ^ 3) * (wavelength_nm (props s) * (1 / 10 ^ 9)) * m / pi"
    unfolding sync_zR[OF assms(1)] z m using nn by (simp add: power_mult_distrib)
  then show ?thesis using assms(2,5) by (simp add: field_simps)
qed

lemma seed_w0_relation:
  assumes "lastEdited s = ''w0''" "0 < lam" "1 / 10 ^ 3 \<le> waist_w0_um (props s)"
    "M2 (props s) = Some m" "1 \<le> m"
  shows "im (p_q (makeSeed parseC (syncSourceW0ZR s) dir maxLen lam weight)) =
     pi * (waist_w0_um (props s) * (1 / 10 ^ 6))\<^sup>2 / (m * lam)"
proof -
  have w: "max (1 / 10 ^ 9) (waist_w0_um (props s) * (1 / 10 ^ 6)) = waist_w0_um (props s) * (1 / 10 ^ 6)"
    using assms(3) by (simp add: max_def)
  have m: "max 1 (js_nullish (M2 (props s)) 1) = m"
    using assms(4,5) by (simp add: js_nullish_def max_def)
  show ?thesis unfolding makeSeed_q sync_other sync_other(4)[OF assms(1)] w m using assms(1,2,5)
    by (simp add: power2_eq_square field_simps)
qed

lemma seed_zR_relation:
  assumes "lastEdited s \<noteq> ''w0''" "1 / 10 ^ 9 \<le> rayleigh_mm (props s)"
  shows "im (p_q (makeSeed parseC (syncSourceW0ZR s) dir maxLen lam weight)) =
     rayleigh_mm (props s) * (1 / 10 ^ 3)"
  unfolding makeSeed_q sync_other sync_other(5)[OF assms(1)] using assms by (simp add: max_def)

text \<open>
  C6, as the code has it. With wavelength \<open>\<lambda> > 0\<close> and beam quality \<open>M\<^sup>2 \<ge> 1\<close>, waist and
  Rayleigh range are kept in the relation \<open>zR = \<pi> w0\<^sup>2 / (M\<^sup>2 \<lambda>)\<close> (metres): with the waist
  last edited (and at least \<open>1e-3\<close> um, the floor of the code) the derived Rayleigh range
  satisfies it, and the seed's \<open>Im q\<close> satisfies it at the wavelength of its sample; with the
  Rayleigh range last edited (and at least \<open>1e-9\<close> mm) the derived waist satisfies it, and
  the seed's \<open>Im q\<close> is the authored Rayleigh range at every sample wavelength.
\<close>

theorem gaussian_relation_sync_seed:
  assumes "0 < wavelength_nm (props s)" and "M2 (props s) = Some m" and "1 \<le> m"
  shows "(lastEdited s = ''w0'' \<and> 1 / 10 ^ 3 \<le> waist_w0_um (props s) \<longrightarrow>
            rayleigh_mm (props (syncSourceW0ZR s)) * (1 / 10 ^ 3) =
              pi * (waist_w0_um (props s) * (1 / 10 ^ 6))\<^sup>2
                / (m * (wavelength_nm (props s) * (1 / 10 ^ 9)))
          \<and> (\<forall>lam. 0 < lam \<longrightarrow>
                im (p_q (makeSeed parseC (syncSourceW0ZR s) dir maxLen lam weight)) =
                  pi * (waist_w0_um (props s) * (1 / 10 ^ 6))\<^sup>2 / (m * lam)))
       \<and> (lastEdited s \<noteq> ''w0'' \<and> 1 / 10 ^ 9 \<le> rayleigh_mm (props s) \<longrightarrow>
            rayleigh_mm (props s) * (1 / 10 ^ 3) =
              pi * (waist_w0_um (props (syncSourceW0ZR s)) * (1 / 10 ^ 6))\<^sup>2
                / (m * (wavelength_nm (props s) * (1 / 10 ^ 9)))
          \<and> (\<forall>lam. im (p_q (makeSeed parseC (syncSourceW0ZR s) dir maxLen lam weight)) =
                rayleigh_mm (props s) * (1 / 10 ^ 3)))"
  using assms sync_w0_relation[of s m] sync_zR_relation[of s m] seed_w0_relation[of s _ m]
    seed_zR_relation[of s]
  by blast

theorem gaussian_relation_sync_seed_witness:
  "0 < wavelength_nm (props (testSource 1000 None None 200 0 2 ''w0'')) \<and>
   M2 (props (testSource 1000 None None 200 0 2 ''w0'')) = Some 2 \<and>
   lastEdited (testSource 1000 None None 200 0 2 ''w0'') = ''w0'' \<and>
   1 / 10 ^ 3 \<le> waist_w0_um (props (testSource 1000 None None 200 0 2 ''w0'')) \<and>
   rayleigh_mm (props (syncSourceW0ZR (testSource 1000 None None 200 0 2 ''w0''))) * (1 / 10 ^ 3)
     = pi / 50 \<and>
   im (p_q (makeSeed parseOne (syncSourceW0ZR (testSource 1000 None None 200 0 2 ''w0''))
              (Vector3_new 0 0 1) 1 (1 / 10 ^ 6) 1)) = pi / 50 \<and>
   0 < wavelength_nm (props (testSource 1000 None None 0 5 2 ''zR'')) \<and>
   M2 (props (testSource 1000 None None 0 5 2 ''zR'')) = Some 2 \<and>
   lastEdited (testSource 1000 None None 0 5 2 ''zR'') \<noteq> ''w0'' \<and>
   1 / 10 ^ 9 \<le> rayleigh_mm (props (testSource 1000 None None 0 5 2 ''zR'')) \<and>
   pi * (waist_w0_um (props (syncSourceW0ZR (testSource 1000 None None 0 5 2 ''zR''))) * (1 / 10 ^ 6))\<^sup>2
     = 1 / 10 ^ 8 \<and>
   im (p_q (makeSeed parseOne (syncSourceW0ZR (testSource 1000 None None 0 5 2 ''zR''))
              (Vector3_new 0 0 1) 1 (1 / 10 ^ 6) 1)) = 5 / 10 ^ 3"
proof -
  have a: "0 < wavelength_nm (props (testSource 1000 None None 200 0 2 ''w0''))"
    "M2 (props (testSource 1000 None None 200 0 2 ''w0'')) = Some 2" "(1::real) \<le> 2"
    "lastEdited (testSource 1000 None None 200 0 2 ''w0'') = ''w0''"
    "1 / 10 ^ 3 \<le> waist_w0_um (props (testSource 1000 None None 200 0 2 ''w0''))"
    by (simp_all add: testSource_def)
  have b: "0 < wavelength_nm (props (testSource 1000 None None 0 5 2 ''zR''))"
    "M2 (props (testSource 1000 None None 0 5 2 ''zR'')) = Some 2" "(1::real) \<le> 2"
    "lastEdited (testSource 1000 None None 0 5 2 ''zR'') \<noteq> ''w0''"
    "1 / 10 ^ 9 \<le> rayleigh_mm (props (testSource 1000 None None 0 5 2 ''zR''))"
    by (simp_all add: testSource_def)
  note A = gaussian_relation_sync_seed[OF a(1,2,3), of parseOne "Vector3_new 0 0 1" 1 1]
  note B = gaussian_relation_sync_seed[OF b(1,2,3), of parseOne "Vector3_new 0 0 1" 1 1]
  have A1: "rayleigh_mm (props (syncSourceW0ZR (testSource 1000 None None 200 0 2 ''w0''))) * (1 / 10 ^ 3)
      = pi / 50"
    using A a(4,5) by (simp add: testSource_def power2_eq_square)
  have A2: "im (p_q (makeSeed parseOne (syncSourceW0ZR (testSource 1000 None None 200 0 2 ''w0''))
              (Vector3_new 0 0 1) 1 (1 / 10 ^ 6) 1)) = pi / 50"
    using A a(4,5) by (simp add: testSource_def power2_eq_square)
  have B1: "pi * (waist_w0_um (props (syncSourceW0ZR (testSource 1000 None None 0 5 2 ''zR''))) * (1 / 10 ^ 6))\<^sup>2
      = 1 / 10 ^ 8"
    using B b(4,5) by (simp add: testSource_def)
  have B2: "im (p_q (makeSeed parseOne (syncSourceW0ZR (testSource 1000 None None 0 5 2 ''zR''))
              (Vector3_new 0 0 1) 1 (1 / 10 ^ 6) 1)) = 5 / 10 ^ 3"
    using B b(4,5) by (simp add: testSource_def)
  show ?thesis using a b A1 A2 B1 B2 by blast
qed

text \<open>
  C6 as stated fails: with \<open>M\<^sup>2 = 2\<close>, waist 200 um and wavelength 1000 nm the derived
  Rayleigh range is \<open>\<pi>/50\<close> m, while \<open>\<pi> w0\<^sup>2 M\<^sup>2 / \<lambda>\<close> is \<open>2\<pi>/25\<close> m.
\<close>

theorem rayleigh_not_times_M2:
  "rayleigh_mm (props (syncSourceW0ZR (testSource 1000 None None 200 0 2 ''w0''))) * (1 / 10 ^ 3)
     = pi / 50 \<and>
   pi * (waist_w0_um (props (testSource 1000 None None 200 0 2 ''w0'')) * (1 / 10 ^ 6))\<^sup>2 * 2
     / (wavelength_nm (props (testSource 1000 None None 200 0 2 ''w0'')) * (1 / 10 ^ 9)) = 2 * pi / 25 \<and>
   pi / 50 \<noteq> 2 * pi / 25"
  by (simp add: syncSourceW0ZR_def testSource_def Let_def js_nullish_def power2_eq_square)

text \<open>
  C7, as the code has it. At \<open>M\<^sup>2 = 1\<close> and wavelength \<open>\<lambda> > 0\<close>, for a waist of at least
  \<open>1e-3\<close> um whose Rayleigh range \<open>\<pi> w0\<^sup>2 / \<lambda>\<close> is at least \<open>1e-12\<close> m (the two floors of the
  code), converting the waist to a Rayleigh range and that Rayleigh range back gives the
  original waist (exactly, in real arithmetic).
\<close>

theorem waist_roundtrip:
  assumes "0 < wavelength_nm (props s)" and "1 / 10 ^ 3 \<le> waist_w0_um (props s)"
    and "M2 (props s) = Some 1"
    and "1 / 10 ^ 12 \<le> pi * (waist_w0_um (props s) * (1 / 10 ^ 6))\<^sup>2
                          / (wavelength_nm (props s) * (1 / 10 ^ 9))"
  shows "waist_w0_um (props (syncSourceW0ZR
           ((syncSourceW0ZR (s\<lparr>lastEdited := ''w0''\<rparr>))\<lparr>lastEdited := ''zR''\<rparr>)))
         = waist_w0_um (props s)"
proof -
  let ?s1 = "syncSourceW0ZR (s\<lparr>lastEdited := ''w0''\<rparr>)"
  let ?w = "waist_w0_um (props s) * (1 / 10 ^ 6)"
  let ?lam = "wavelength_nm (props s) * (1 / 10 ^ 9)"
  have r: "rayleigh_mm (props ?s1) * (1 / 10 ^ 3) = pi * ?w\<^sup>2 / (1 * ?lam)"
    using sync_w0_relation[of "s\<lparr>lastEdited := ''w0''\<rparr>" 1] assms by simp
  have z: "max (1 / 10 ^ 12) (rayleigh_mm (props ?s1) * (1 / 10 ^ 3)) = pi * ?w\<^sup>2 / ?lam"
    using r assms(4) by (simp add: max_def)
  have m: "max 1 (js_nullish (M2 (props (?s1\<lparr>lastEdited := ''zR''\<rparr>))) 1) = 1"
    using assms(3) by (simp add: sync_other js_nullish_def)
  have "waist_w0_um (props (syncSourceW0ZR (?s1\<lparr>lastEdited := ''zR''\<rparr>)))
      = sqrt (pi * ?w\<^sup>2 / ?lam * ?lam * 1 / pi) * 10 ^ 6"
    using z m by (simp add: sync_zR sync_other)
  also have "pi * ?w\<^sup>2 / ?lam * ?lam * 1 / pi = ?w\<^sup>2" using assms(1) by simp
  also have "sqrt (?w\<^sup>2) = ?w" using assms(2) by simp
  finally show ?thesis by simp
qed

theorem waist_roundtrip_witness:
  "0 < wavelength_nm (props (testSource 1000 None None 200 0 1 ''w0'')) \<and>
   1 / 10 ^ 3 \<le> waist_w0_um (props (testSource 1000 None None 200 0 1 ''w0'')) \<and>
   M2 (props (testSource 1000 None None 200 0 1 ''w0'')) = Some 1 \<and>
   1 / 10 ^ 12 \<le> pi * (waist_w0_um (props (testSource 1000 None None 200 0 1 ''w0'')) * (1 / 10 ^ 6))\<^sup>2
                     / (wavelength_nm (props (testSource 1000 None None 200 0 1 ''w0'')) * (1 / 10 ^ 9)) \<and>
   waist_w0_um (props (syncSourceW0ZR
      ((syncSourceW0ZR ((testSource 1000 None None 200 0 1 ''w0'')\<lparr>lastEdited := ''w0''\<rparr>))
         \<lparr>lastEdited := ''zR''\<rparr>))) = 200"
proof -
  have pp: "1 \<le> pi" using pi_ge_two by linarith
  have a: "0 < wavelength_nm (props (testSource 1000 None None 200 0 1 ''w0''))"
    "1 / 10 ^ 3 \<le> waist_w0_um (props (testSource 1000 None None 200 0 1 ''w0''))"
    "M2 (props (testSource 1000 None None 200 0 1 ''w0'')) = Some 1"
    by (simp_all add: testSource_def)
  have b: "1 / 10 ^ 12 \<le> pi * (waist_w0_um (props (testSource 1000 None None 200 0 1 ''w0'')) * (1 / 10 ^ 6))\<^sup>2
                     / (wavelength_nm (props (testSource 1000 None None 200 0 1 ''w0'')) * (1 / 10 ^ 9))"
    using pp by (simp add: testSource_def power2_eq_square)
  have c: "waist_w0_um (props (testSource 1000 None None 200 0 1 ''w0'')) = 200"
    by (simp add: testSource_def)
  show ?thesis using a b waist_roundtrip[OF a(1,2,3) b] unfolding c by blast
qed

text \<open>
  C7 as stated fails: a positive waist of \<open>1e-4\<close> um (wavelength 1000 nm, \<open>M\<^sup>2 = 1\<close>) comes
  back as \<open>1e-3\<close> um, ten times the original.
\<close>

theorem waist_roundtrip_clamped:
  "waist_w0_um (props (syncSourceW0ZR
      ((syncSourceW0ZR ((testSource 1000 None None (1 / 10 ^ 4) 0 1 ''w0'')\<lparr>lastEdited := ''w0''\<rparr>))
         \<lparr>lastEdited := ''zR''\<rparr>))) = 1 / 10 ^ 3 \<and>
   waist_w0_um (props (testSource 1000 None None (1 / 10 ^ 4) 0 1 ''w0'')) = 1 / 10 ^ 4"
proof -
  define s1 where "s1 = syncSourceW0ZR ((testSource 1000 None None (1 / 10 ^ 4) 0 1 ''w0'')\<lparr>lastEdited := ''w0''\<rparr>)"
  have sq: "sqrt (1 / 10 ^ 18) = 1 / 10 ^ 9"
    by (rule real_sqrt_unique) (simp_all add: power2_eq_square)
  have pp: "1 \<le> pi" using pi_ge_two by linarith
  have a: "rayleigh_mm (props s1) = pi / 10 ^ 9"
    unfolding s1_def by (simp add: sync_w0 testSource_def js_nullish_def max_def)
  have l: "wavelength_nm (props s1) = 1000" and m: "M2 (props s1) = Some 1"
    unfolding s1_def by (simp_all add: sync_other testSource_def)
  have b: "max (1 / 10 ^ 12) (pi / 10 ^ 9 * (1 / 10 ^ 3)) = pi / 10 ^ 12"
    using pp by (simp add: max_def)
  have "waist_w0_um (props (syncSourceW0ZR (s1\<lparr>lastEdited := ''zR''\<rparr>)))
     = sqrt (max (1 / 10 ^ 12) (pi / 10 ^ 9 * (1 / 10 ^ 3)) * (1000 * (1 / 10 ^ 9)) * 1 / pi) * 10 ^ 6"
    using sync_zR[of "s1\<lparr>lastEdited := ''zR''\<rparr>"] by (simp add: a l m js_nullish_def)
  also have "max (1 / 10 ^ 12) (pi / 10 ^ 9 * (1 / 10 ^ 3)) * (1000 * (1 / 10 ^ 9)) * 1 / pi = 1 / 10 ^ 18"
    unfolding b by simp
  also have "sqrt (1 / 10 ^ 18) * 10 ^ 6 = 1 / 10 ^ 3" unfolding sq by simp
  finally have "waist_w0_um (props (syncSourceW0ZR (s1\<lparr>lastEdited := ''zR''\<rparr>))) = 1 / 10 ^ 3" .
  moreover have "waist_w0_um (props (testSource 1000 None None (1 / 10 ^ 4) 0 1 ''w0'')) = 1 / 10 ^ 4"
    by (simp add: testSource_def)
  ultimately show ?thesis unfolding s1_def by blast
qed

subsection \<open>The traversal\<close>



lemma polSampleLoop_frame:
  "p_pos (polSampleLoop L path) = p_pos path \<and> p_dir (polSampleLoop L path) = p_dir path \<and>
   p_q (polSampleLoop L path) = p_q path \<and> p_J (polSampleLoop L path) = p_J path \<and>
   p_Jnorm (polSampleLoop L path) = p_Jnorm path \<and> p_lam (polSampleLoop L path) = p_lam path \<and>
   p_M2 (polSampleLoop L path) = p_M2 path \<and> p_traveled (polSampleLoop L path) = p_traveled path \<and>
   p_lastHit (polSampleLoop L path) = p_lastHit path \<and> p_maxLen (polSampleLoop L path) = p_maxLen path \<and>
   p_pts (polSampleLoop L path) = p_pts path \<and> p_dirs (polSampleLoop L path) = p_dirs path \<and>
   p_widths (polSampleLoop L path) = p_widths path \<and> p_amps (polSampleLoop L path) = p_amps path"
proof (induction L path rule: polSampleLoop.induct)
  case (1 L path)
  show ?case
  proof (cases "p_polSampleCountdown path \<le> 0")
    case True
    show ?thesis
      using "1.IH"[OF True refl refl refl refl refl] True
      by (subst (1 2 3 4 5 6 7 8 9 10 11 12 13 14) polSampleLoop.simps) (simp add: Let_def)
  next
    case False
    then show ?thesis by (simp add: polSampleLoop.simps[of L path])
  qed
qed

lemma sampleSegment_frame:
  "p_pos (sampleSegment pr path L) = p_pos path" "p_dir (sampleSegment pr path L) = p_dir path"
  "p_q (sampleSegment pr path L) = p_q path" "p_J (sampleSegment pr path L) = p_J path"
  "p_Jnorm (sampleSegment pr path L) = p_Jnorm path" "p_lam (sampleSegment pr path L) = p_lam path"
  "p_M2 (sampleSegment pr path L) = p_M2 path" "p_traveled (sampleSegment pr path L) = p_traveled path"
  "p_lastHit (sampleSegment pr path L) = p_lastHit path" "p_maxLen (sampleSegment pr path L) = p_maxLen path"
  by (simp_all add: sampleSegment_def Let_def polSampleLoop_frame)

lemma sampleSegment_pts:
  "p_pts (sampleSegment pr path L) =
     p_pts path @ map (\<lambda>t. v_add (p_pos path) (v_multiplyScalar (p_dir path) t)) (sampleDistances (p_q path) L)"
  by (simp add: sampleSegment_def Let_def polSampleLoop_frame)



lemma jNorm_scaled:
  "jNorm (Complex_mul a (Num k), Complex_mul b (Num k)) = \<bar>k\<bar> * jNorm (a, b)"
proof -
  have "(re a * k) * (re a * k) + (im a * k) * (im a * k) + ((re b * k) * (re b * k) + (im b * k) * (im b * k))
      = k\<^sup>2 * (re a * re a + im a * im a + (re b * re b + im b * im b))"
    by (simp add: power2_eq_square algebra_simps)
  then show ?thesis
    by (simp add: jNorm_def Complex_mul_def Complex_new_def Let_def real_sqrt_mult)
qed

lemma jNorm_scaled_flip:
  "jNorm (Complex_mul a (Num (k * 1)), Complex_mul b (Num (k * (- 1 * 1)))) = \<bar>k\<bar> * jNorm (a, b)"
proof -
  have "(re a * k) * (re a * k) + (im a * k) * (im a * k) + ((re b * k) * (re b * k) + (im b * k) * (im b * k))
      = k\<^sup>2 * (re a * re a + im a * im a + (re b * re b + im b * im b))"
    by (simp add: power2_eq_square algebra_simps)
  then show ?thesis
    by (simp add: jNorm_def Complex_mul_def Complex_new_def Let_def real_sqrt_mult)
qed

lemma pushPoint_frame:
  "p_J (pushPoint path) = p_J path" "p_Jnorm (pushPoint path) = p_Jnorm path"
  "p_q (pushPoint path) = p_q path" "p_dir (pushPoint path) = p_dir path"
  "p_pos (pushPoint path) = p_pos path" "p_lastHit (pushPoint path) = p_lastHit path"
  "p_traveled (pushPoint path) = p_traveled path" "p_maxLen (pushPoint path) = p_maxLen path"
  by (simp_all add: pushPoint_def)

lemma nudge_frame:
  "p_J (nudge path) = p_J path" "p_Jnorm (nudge path) = p_Jnorm path"
  "p_q (nudge path) = p_q path" "p_dir (nudge path) = p_dir path"
  "p_pos (nudge path) = v_add (p_pos path) (v_multiplyScalar (p_dir path) (1 / 10 ^ 6))"
  "p_lastHit (nudge path) = p_lastHit path"
  "p_traveled (nudge path) = p_traveled path" "p_maxLen (nudge path) = p_maxLen path"
  by (simp_all add: nudge_def)

lemma splitter_relAmp:
  assumes "\<not> prop_polarizing (el_props el)" "prop_R (el_props el) = Some (1 / 2)"
  shows "relAmp (splitterTransmitted el path) = sqrt (1 / 2) * relAmp path"
    and "relAmp (splitterReflected el path) = sqrt (1 / 2) * relAmp path"
proof -
  have j: "p_J path = (fst (p_J path), snd (p_J path))" by simp
  show "relAmp (splitterTransmitted el path) = sqrt (1 / 2) * relAmp path"
    using assms
    by (simp add: relAmp_def splitterTransmitted_def Let_def nudge_frame pushPoint_frame cloneBase_def
        js_nullish_def jNorm_scaled del: real_sqrt_divide)
  show "relAmp (splitterReflected el path) = sqrt (1 / 2) * relAmp path"
    using assms jNorm_scaled_flip[of "fst (p_J path)" "sqrt (1/2)" "snd (p_J path)"]
    by (simp add: relAmp_def splitterReflected_def Let_def nudge_frame pushPoint_frame cloneBase_def
        js_nullish_def)
qed


lemma splitter_queue:
  "queue (beamSplitterBranch el aoi path eng) =
     queue eng @ filter (\<lambda>b. AMP_CUTOFF \<le> relAmp b) [splitterTransmitted el path, splitterReflected el path]"
  by (simp add: beamSplitterBranch_def Let_def pushIfStrong_def)

lemma makeSeed_Jnorm: "0 < p_Jnorm (makeSeed parseC s dir maxLen lam weight)"
  by (simp add: makeSeed_def Let_def max_def)

lemma splitter_Jnorm:
  "p_Jnorm (splitterTransmitted el path) = p_Jnorm path"
  "p_Jnorm (splitterReflected el path) = p_Jnorm path"
  by (simp_all add: splitterTransmitted_def splitterReflected_def Let_def nudge_frame pushPoint_frame
      cloneBase_def)

text \<open>
  C2. A ray that hits a non-polarizing beam splitter with \<open>R = 0.5\<close> leaves the loop with
  exactly two branches made, the transmitted and the reflected clone (each is queued when its
  relative amplitude reaches the cutoff); the relative intensity of each is half that of the
  incoming ray, and the two add up to it. The reference norm of the ray is positive, as it is
  for every seed and for every clone of a ray that has it so.
\<close>

theorem splitter_5050:
  assumes "el_type el = ''beamSplitter''" and "\<not> prop_polarizing (el_props el)"
    and "prop_R (el_props el) = Some (1 / 2)" and "0 < p_Jnorm path"
  shows "interact el path eng = (Break, path, beamSplitterBranch el (angleOfIncidence path el) path eng) \<and>
     queue (beamSplitterBranch el (angleOfIncidence path el) path eng) =
       queue eng @ filter (\<lambda>b. AMP_CUTOFF \<le> relAmp b) [splitterTransmitted el path, splitterReflected el path] \<and>
     relIntensity (splitterTransmitted el path) = 1 / 2 * relIntensity path \<and>
     relIntensity (splitterReflected el path) = 1 / 2 * relIntensity path \<and>
     relIntensity (splitterTransmitted el path) + relIntensity (splitterReflected el path) = relIntensity path"
proof -
  have i: "interact el path eng = (Break, path, beamSplitterBranch el (angleOfIncidence path el) path eng)"
    using assms(1) by (simp add: interact_def Let_def)
  have h: "(sqrt (1 / 2))\<^sup>2 = (1 / 2 :: real)" by (rule real_sqrt_pow2) simp
  have t: "relIntensity (splitterTransmitted el path) = 1 / 2 * relIntensity path"
    unfolding relIntensity_def splitter_relAmp(1)[OF assms(2,3)] power_mult_distrib h ..
  have r: "relIntensity (splitterReflected el path) = 1 / 2 * relIntensity path"
    unfolding relIntensity_def splitter_relAmp(2)[OF assms(2,3)] power_mult_distrib h ..
  show ?thesis using i t r splitter_queue by simp
qed

theorem splitter_5050_witness:
  "el_type (testElement 1 ''beamSplitter'') = ''beamSplitter'' \<and>
   \<not> prop_polarizing (el_props (testElement 1 ''beamSplitter'')) \<and>
   prop_R (el_props (testElement 1 ''beamSplitter'')) = Some (1 / 2) \<and> 0 < p_Jnorm testPath \<and>
   relIntensity testPath = 1 \<and>
   relIntensity (splitterTransmitted (testElement 1 ''beamSplitter'') testPath) = 1 / 2 \<and>
   relIntensity (splitterReflected (testElement 1 ''beamSplitter'') testPath) = 1 / 2"
proof -
  have a: "el_type (testElement 1 ''beamSplitter'') = ''beamSplitter''"
    "\<not> prop_polarizing (el_props (testElement 1 ''beamSplitter''))"
    "prop_R (el_props (testElement 1 ''beamSplitter'')) = Some (1 / 2)" "0 < p_Jnorm testPath"
    by (simp_all add: testElement_def testPath_def)
  have b: "relIntensity testPath = 1"
    by (simp add: relIntensity_def relAmp_def testPath_def jNorm_def Complex_new_def)
  show ?thesis using a b splitter_5050[OF a, of "testEngine []"] by simp
qed


lemma propagateToHit_frame:
  "p_J (propagateToHit pr path h) = p_J path" "p_dir (propagateToHit pr path h) = p_dir path"
  "p_q (propagateToHit pr path h) = freeSpace (p_q path) (h_distance h)"
  "p_pos (propagateToHit pr path h) = h_point h"
  "p_traveled (propagateToHit pr path h) = p_traveled path + h_distance h"
  "p_Jnorm (propagateToHit pr path h) = p_Jnorm path"
  by (simp_all add: propagateToHit_def Let_def sampleSegment_frame)

lemma propagateToHit_pts:
  "p_pts (propagateToHit pr path h) =
     p_pts path @ map (\<lambda>t. v_add (p_pos path) (v_multiplyScalar (p_dir path) t))
                      (sampleDistances (p_q path) (h_distance h))"
  by (simp add: propagateToHit_def Let_def sampleSegment_pts)

lemma march_step:
  assumes "step < maxSegments pr" "p_traveled path < p_maxLen path"
  shows "march sc pr step path eng =
    (if fst (stepBody sc pr path eng) = Break then (Suc step, snd (stepBody sc pr path eng))
     else march sc pr (Suc step) (fst (snd (stepBody sc pr path eng))) (snd (snd (stepBody sc pr path eng))))"
  using assms by (subst march.simps) (simp add: Let_def)

lemma march_stop:
  assumes "\<not> (step < maxSegments pr \<and> p_traveled path < p_maxLen path)"
  shows "march sc pr step path eng = (step, path, eng)"
  by (subst march.simps) (simp only: assms if_False)

lemma stepBody_hit:
  "raycastHits sc path = h # hs \<Longrightarrow>
     stepBody sc pr path eng = interact (h_element h) (propagateToHit pr path h) eng"
  by (simp add: stepBody_def)

text \<open>
  C8. A ray whose nearest hit is a detector (multimeter): the interaction leaves \<open>q\<close> as it is
  at the detector plane (the incoming \<open>q\<close> advanced by the distance to the hit), and leaves the
  Jones vector and the direction unchanged; the position is the hit point nudged by \<open>1e-6\<close>
  along the direction, the readout is stored under the detector's id, nothing is queued, and
  the loop goes on with the next step for this ray while the step and length budgets last.
\<close>

theorem multimeter_passthrough:
  assumes "raycastHits sc path0 = h # hs" and "el_type (h_element h) = ''multimeter''"
  shows "stepBody sc pr path0 eng =
           (Next, multimeterBranch (h_element h) (angleOfIncidence path0 (h_element h))
                    (propagateToHit pr path0 h) eng) \<and>
         p_q (fst (snd (stepBody sc pr path0 eng))) = p_q (propagateToHit pr path0 h) \<and>
         p_q (propagateToHit pr path0 h) = freeSpace (p_q path0) (h_distance h) \<and>
         p_J (fst (snd (stepBody sc pr path0 eng))) = p_J path0 \<and>
         p_dir (fst (snd (stepBody sc pr path0 eng))) = p_dir path0 \<and>
         p_pos (fst (snd (stepBody sc pr path0 eng))) =
           v_add (h_point h) (v_multiplyScalar (p_dir path0) (1 / 10 ^ 6)) \<and>
         meterLastInfo (snd (snd (stepBody sc pr path0 eng))) (el_id (h_element h)) =
           Some (multimeterReadout (h_element h) (angleOfIncidence path0 (h_element h))
                   (propagateToHit pr path0 h)) \<and>
         queue (snd (snd (stepBody sc pr path0 eng))) = queue eng \<and>
         (step < maxSegments pr \<and> p_traveled path0 < p_maxLen path0 \<longrightarrow>
            march sc pr step path0 eng =
              march sc pr (Suc step) (fst (snd (stepBody sc pr path0 eng)))
                (snd (snd (stepBody sc pr path0 eng))))"
proof -
  let ?el = "h_element h"
  let ?p = "propagateToHit pr path0 h"
  have a: "angleOfIncidence ?p ?el = angleOfIncidence path0 ?el"
    by (simp add: angleOfIncidence_def propagateToHit_frame)
  have s: "stepBody sc pr path0 eng = (Next, multimeterBranch ?el (angleOfIncidence path0 ?el) ?p eng)"
    using assms by (simp add: stepBody_hit interact_def Let_def a)
  have m: "march sc pr step path0 eng =
              march sc pr (Suc step) (fst (snd (stepBody sc pr path0 eng)))
                (snd (snd (stepBody sc pr path0 eng)))"
    if "step < maxSegments pr" "p_traveled path0 < p_maxLen path0"
    using march_step[OF that, of sc eng] s by simp
  show ?thesis unfolding s using m s
    by (simp add: multimeterBranch_def nudge_frame pushPoint_frame propagateToHit_frame)
qed

theorem multimeter_passthrough_witness:
  "raycastHits (testScene ''multimeter'') testPath = [testHit ''multimeter''] \<and>
   el_type (h_element (testHit ''multimeter'')) = ''multimeter'' \<and>
   fst (stepBody (testScene ''multimeter'') testParams testPath (testEngine [])) = Next \<and>
   p_q (fst (snd (stepBody (testScene ''multimeter'') testParams testPath (testEngine []))))
     = Complex_new (1 / 2) 1 \<and>
   p_J (fst (snd (stepBody (testScene ''multimeter'') testParams testPath (testEngine []))))
     = (Complex_new 1 0, Complex_new 0 0) \<and>
   p_dir (fst (snd (stepBody (testScene ''multimeter'') testParams testPath (testEngine []))))
     = Vector3_new 0 0 1 \<and>
   march (testScene ''multimeter'') testParams 0 testPath (testEngine []) =
     march (testScene ''multimeter'') testParams (Suc 0)
       (fst (snd (stepBody (testScene ''multimeter'') testParams testPath (testEngine []))))
       (snd (snd (stepBody (testScene ''multimeter'') testParams testPath (testEngine []))))"
proof -
  have rc: "raycastHits (testScene ''multimeter'') testPath = testHit ''multimeter'' # []"
    by (simp add: raycastHits_def testScene_def testPath_def testHit_def testElement_def)
  have ty: "el_type (h_element (testHit ''multimeter'')) = ''multimeter''"
    by (simp add: testHit_def testElement_def)
  have g: "0 < maxSegments testParams \<and> p_traveled testPath < p_maxLen testPath"
    by (simp add: testParams_def testPath_def)
  have v: "freeSpace (p_q testPath) (h_distance (testHit ''multimeter'')) = Complex_new (1 / 2) 1"
    "p_J testPath = (Complex_new 1 0, Complex_new 0 0)" "p_dir testPath = Vector3_new 0 0 1"
    by (simp_all add: freeSpace_eq testPath_def testHit_def Complex_new_def)
  note T = multimeter_passthrough[OF rc ty, of testParams "testEngine []" 0]
  have t1: "fst (stepBody (testScene ''multimeter'') testParams testPath (testEngine [])) = Next"
    using T by simp
  have t2: "p_q (fst (snd (stepBody (testScene ''multimeter'') testParams testPath (testEngine []))))
      = p_q (propagateToHit testParams testPath (testHit ''multimeter''))"
    "p_q (propagateToHit testParams testPath (testHit ''multimeter''))
      = freeSpace (p_q testPath) (h_distance (testHit ''multimeter''))"
    "p_J (fst (snd (stepBody (testScene ''multimeter'') testParams testPath (testEngine []))))
      = p_J testPath"
    "p_dir (fst (snd (stepBody (testScene ''multimeter'') testParams testPath (testEngine []))))
      = p_dir testPath"
    using T by blast+
  have t3: "march (testScene ''multimeter'') testParams 0 testPath (testEngine []) =
     march (testScene ''multimeter'') testParams (Suc 0)
       (fst (snd (stepBody (testScene ''multimeter'') testParams testPath (testEngine []))))
       (snd (snd (stepBody (testScene ''multimeter'') testParams testPath (testEngine []))))"
    using T g by blast
  show ?thesis using rc ty t1 t3 unfolding t2 v by simp
qed

lemma march_steps_bound:
  "step \<le> maxSegments pr \<Longrightarrow> fst (march sc pr step path eng) \<le> maxSegments pr"
proof (induction sc pr step path eng rule: march.induct)
  case (1 sc pr step path eng)
  show ?case
  proof (cases "step < maxSegments pr \<and> p_traveled path < p_maxLen path")
    case True
    then have g: "step < maxSegments pr" "p_traveled path < p_maxLen path" by simp_all
    show ?thesis
    proof (cases "fst (stepBody sc pr path eng) = Break")
      case True
      then show ?thesis using g by (simp add: march_step[OF g])
    next
      case False
      have "fst (march sc pr (Suc step) (fst (snd (stepBody sc pr path eng))) (snd (snd (stepBody sc pr path eng))))
              \<le> maxSegments pr"
        using "1.IH"[OF \<open>step < maxSegments pr \<and> p_traveled path < p_maxLen path\<close> refl False] g by simp
      then show ?thesis using False by (simp add: march_step[OF g])
    qed
  next
    case False
    then show ?thesis using "1.prems" by (simp add: march_stop)
  qed
qed

lemma workStep_length:
  "length (fst (workStep sc pr completedPaths path eng)) = Suc (length completedPaths)"
  by (simp add: workStep_def Let_def)

lemma workPass_length:
  "workGuard completedPaths eng \<Longrightarrow>
     length (fst (workPass sc pr (completedPaths, eng))) = Suc (length completedPaths)"
  by (auto simp add: workGuard_def workPass_def workStep_length split: list.splits)

lemma workLoop_length:
  "length (fst (workLoop sc pr completedPaths eng)) \<le> max (length completedPaths) (MAX_BEAMS - 1)"
proof (induction sc pr completedPaths eng rule: workLoop.induct)
  case (1 sc pr completedPaths eng)
  show ?case
  proof (cases "workGuard completedPaths eng")
    case True
    have "Suc (length completedPaths) \<le> MAX_BEAMS - 1"
      using True by (cases "queue eng") (auto simp add: workGuard_def)
    then show ?thesis using "1.IH"[OF True] True
      by (subst workLoop.simps) (simp add: workPass_length)
  next
    case False
    then show ?thesis by (subst workLoop.simps) simp
  qed
qed

lemma workLoop_exit:
  "\<not> workGuard (fst (workLoop sc pr completedPaths eng)) (snd (workLoop sc pr completedPaths eng))"
proof (induction sc pr completedPaths eng rule: workLoop.induct)
  case (1 sc pr completedPaths eng)
  show ?case
  proof (cases "workGuard completedPaths eng")
    case True
    show ?thesis using "1.IH"[OF True] True by (subst (1 2) workLoop.simps) simp
  next
    case False
    then show ?thesis by (subst (1 2) workLoop.simps) simp
  qed
qed

lemma workLoop_passes:
  "\<exists>n. n \<le> MAX_BEAMS - length completedPaths \<and>
       workLoop sc pr completedPaths eng = (workPass sc pr ^^ n) (completedPaths, eng)"
proof (induction sc pr completedPaths eng rule: workLoop.induct)
  case (1 sc pr completedPaths eng)
  show ?case
  proof (cases "workGuard completedPaths eng")
    case True
    let ?st = "workPass sc pr (completedPaths, eng)"
    obtain n where n: "n \<le> MAX_BEAMS - length (fst ?st)"
        "workLoop sc pr (fst ?st) (snd ?st) = (workPass sc pr ^^ n) (fst ?st, snd ?st)"
      using "1.IH"[OF True] by blast
    have lt: "length completedPaths < MAX_BEAMS" using True by (simp add: workGuard_def)
    have "Suc n \<le> MAX_BEAMS - length completedPaths"
      using n(1) lt unfolding workPass_length[OF True] by simp
    moreover have "workLoop sc pr completedPaths eng = (workPass sc pr ^^ Suc n) (completedPaths, eng)"
      using True n(2) by (subst workLoop.simps) (simp add: funpow_swap1)
    ultimately show ?thesis by blast
  next
    case False
    have "workLoop sc pr completedPaths eng = (workPass sc pr ^^ 0) (completedPaths, eng)"
      using False by (subst workLoop.simps) simp
    then show ?thesis by blast
  qed
qed

text \<open>
  C10. The marching loop and the work loop terminate (they are total functions, their
  termination proved where they are defined). A dequeued path makes at most \<open>maxSegments\<close>
  passes of the marching loop; each pass of the work loop adds exactly one completed path;
  started with no completed path the work loop is left after at most \<open>MAX_BEAMS = 600\<close> passes,
  with at most 600 completed paths and its condition false.
\<close>

theorem traversal_bounded:
  "fst (march sc pr 0 path eng) \<le> maxSegments pr \<and>
   length (fst (workStep sc pr completedPaths path eng)) = Suc (length completedPaths) \<and>
   (\<exists>n. n \<le> MAX_BEAMS \<and> workLoop sc pr [] eng = (workPass sc pr ^^ n) ([], eng)) \<and>
   length (fst (workLoop sc pr [] eng)) \<le> MAX_BEAMS \<and> MAX_BEAMS = 600 \<and>
   \<not> workGuard (fst (workLoop sc pr [] eng)) (snd (workLoop sc pr [] eng))"
  using march_steps_bound[of 0 pr sc path eng] workStep_length[of sc pr completedPaths path eng]
    workLoop_length[of sc pr "[]" eng] workLoop_exit[of sc pr "[]" eng]
    workLoop_passes[of "[]" sc pr eng]
  by (simp add: MAX_BEAMS_def)

theorem traversal_bounded_witness:
  "fst (march (testScene ''multimeter'') testParams 0 testPath (testEngine [])) \<le> 60 \<and>
   length (fst (workStep (testScene ''multimeter'') testParams [] testPath (testEngine []))) = 1 \<and>
   length (fst (workLoop (testScene ''multimeter'') testParams [] (testEngine [testPath]))) \<le> 600"
  using traversal_bounded[of "testScene ''multimeter''" testParams testPath "testEngine []" "[]"]
    traversal_bounded[of "testScene ''multimeter''" testParams testPath "testEngine [testPath]" "[]"]
  by (simp add: testParams_def)

lemma segmentCuts_range:
  assumes "0 \<le> L" "c \<in> set (segmentCuts q0 L)"
  shows "0 \<le> c \<and> c \<le> L"
  using assms by (auto simp add: segmentCuts_def Let_def split: if_splits)

lemma subSegmentDistances_range:
  assumes "t \<in> set (subSegmentDistances a b)"
  shows "a < t \<and> t \<le> b"
proof -
  define subL where "subL = max 0 (b - a)"
  define N where "N = min 160 (max 10 \<lfloor>subL * 50\<rfloor>)"
  have pos: "0 < subL"
    using assms unfolding subL_def by (auto simp add: subSegmentDistances_def Let_def split: if_splits)
  then have ba: "subL = b - a" unfolding subL_def by (simp add: max_def split: if_splits)
  have N: "10 \<le> N" unfolding N_def by simp
  have "t \<in> set (map (\<lambda>i. a + (real i / real_of_int N) * subL) [1..<nat N + 1])"
    using assms pos unfolding N_def subL_def by (simp add: subSegmentDistances_def Let_def split: if_splits)
  then obtain i where i: "1 \<le> i" "i < nat N + 1" "t = a + (real i / real_of_int N) * subL"
    by auto
  have Npos: "0 < real_of_int N" using N by linarith
  have ipos: "0 < real i" using i(1) by simp
  have ile: "real i \<le> real_of_int N" using i(2) N by linarith
  have f0: "0 < real i / real_of_int N" using ipos Npos by (rule divide_pos_pos)
  have f1: "real i / real_of_int N \<le> 1" using ile Npos by (simp add: field_simps)
  have "0 < (real i / real_of_int N) * subL" using f0 pos by (rule mult_pos_pos)
  moreover have "(real i / real_of_int N) * subL \<le> 1 * subL"
    using f1 pos by (intro mult_right_mono) simp_all
  ultimately show ?thesis unfolding i(3) using ba by linarith
qed

lemma sampleDistances_range:
  assumes "0 \<le> L" "t \<in> set (sampleDistances q0 L)"
  shows "0 < t \<and> t \<le> L"
proof -
  obtain k where k: "k < length (segmentCuts q0 L) - 1"
      "t \<in> set (subSegmentDistances (segmentCuts q0 L ! k) (segmentCuts q0 L ! (k + 1)))"
    using assms(2) by (auto simp add: sampleDistances_def Let_def)
  have "segmentCuts q0 L ! k \<in> set (segmentCuts q0 L)" "segmentCuts q0 L ! (k + 1) \<in> set (segmentCuts q0 L)"
    using k(1) by (simp_all add: nth_mem)
  then have "0 \<le> segmentCuts q0 L ! k" "segmentCuts q0 L ! (k + 1) \<le> L"
    using segmentCuts_range[OF assms(1)] by blast+
  then show ?thesis using subSegmentDistances_range[OF k(2)] by linarith
qed

lemma workLoop_step:
  "workGuard completedPaths eng \<Longrightarrow> queue eng = path # rest \<Longrightarrow>
     workLoop sc pr completedPaths eng =
       workLoop sc pr (fst (workStep sc pr completedPaths path (eng\<lparr>queue := rest\<rparr>)))
                      (snd (workStep sc pr completedPaths path (eng\<lparr>queue := rest\<rparr>)))"
  by (subst workLoop.simps) (simp add: workPass_def)

lemma workLoop_stop:
  "\<not> workGuard completedPaths eng \<Longrightarrow> workLoop sc pr completedPaths eng = (completedPaths, eng)"
  by (subst workLoop.simps) simp

lemma workStep_block:
  assumes "raycastHits sc path = h # hs"
    "el_type (h_element h) = ''beamBlock''" "0 < maxSegments pr" "p_traveled path < p_maxLen path"
  shows "workStep sc pr completedPaths path eng = (completedPaths @ [propagateToHit pr path h], eng)"
proof -
  have s: "stepBody sc pr path eng = (Break, propagateToHit pr path h, eng)"
    using assms(1,2) by (simp add: stepBody_hit interact_def Let_def)
  have "march sc pr 0 path eng = (Suc 0, propagateToHit pr path h, eng)"
    using march_step[OF assms(3,4), of sc eng] s by simp
  then show ?thesis by (simp add: workStep_def Let_def)
qed

lemma marchReaches_march_aux:
  "marchReaches sc pr st st' \<Longrightarrow>
     march sc pr (fst st) (fst (snd st)) (snd (snd st)) =
     march sc pr (fst st') (fst (snd st')) (snd (snd st'))"
proof (induction rule: marchReaches.induct)
  case reach_start
  show ?case by simp
next
  case (reach_next step path eng path' eng')
  have "march sc pr step path eng = march sc pr (Suc step) path' eng'"
    using march_step[OF reach_next(2,3), of sc eng] reach_next(4) by simp
  then show ?case using reach_next.IH by simp
qed

lemma marchReaches_march:
  "marchReaches sc pr (step0, path0, eng0) (step, path, eng) \<Longrightarrow>
     march sc pr step0 path0 eng0 = march sc pr step path eng"
  using marchReaches_march_aux[of sc pr "(step0, path0, eng0)" "(step, path, eng)"] by simp

lemma march_block:
  assumes "step < maxSegments pr" "p_traveled path < p_maxLen path"
    "raycastHits sc path = h # hs" "el_type (h_element h) = ''beamBlock''"
  shows "march sc pr step path eng = (Suc step, propagateToHit pr path h, eng)"
proof -
  have s: "stepBody sc pr path eng = (Break, propagateToHit pr path h, eng)"
    using assms(3,4) by (simp add: stepBody_hit interact_def Let_def)
  show ?thesis using march_step[OF assms(1,2), of sc eng] s by simp
qed

lemma subSegmentDistances_nonempty:
  assumes "a < b"
  shows "subSegmentDistances a b \<noteq> []"
proof -
  have "0 < nat (min 160 (max 10 \<lfloor>max 0 (b - a) * 50\<rfloor>))" by simp
  then show ?thesis using assms by (simp add: subSegmentDistances_def Let_def max_def)
qed

lemma sampleDistances_nonempty:
  assumes "0 < L"
  shows "sampleDistances q0 L \<noteq> []"
proof (cases "0 < - re q0 \<and> - re q0 < L")
  case False
  then have c: "segmentCuts q0 L = [0, L]" using assms by (auto simp add: segmentCuts_def Let_def)
  have "sampleDistances q0 L = subSegmentDistances 0 L"
    by (simp add: sampleDistances_def c)
  then show ?thesis using subSegmentDistances_nonempty[OF assms] by simp
next
  case True
  define zW where "zW = - re q0"
  define eps where "eps = max (L * (1 / 10 ^ 4)) (1 / 10 ^ 6)"
  define m1 where "m1 = max 0 (zW - eps)"
  define m2 where "m2 = min L (zW + eps)"
  have z: "0 < zW" "zW < L" using True unfolding zW_def by simp_all
  have e: "0 < eps" unfolding eps_def by (simp add: max_def)
  have o: "0 \<le> m1" "m1 < zW" "zW \<le> m2" "m2 \<le> L"
    using z e unfolding m1_def m2_def by (auto simp add: max_def min_def)
  have "segmentCuts q0 L = sort [0, L, m1, zW, m2]"
    using True unfolding segmentCuts_def Let_def zW_def[symmetric] eps_def[symmetric] m1_def m2_def
    by simp
  also have "sort [0, L, m1, zW, m2] = [0, m1, zW, m2, L]"
  proof (cases "m2 = L")
    case True
    then show ?thesis using o z by simp
  next
    case False
    then have "m2 < L" using o by simp
    then show ?thesis using o z by simp
  qed
  finally have c: "segmentCuts q0 L = [0, m1, zW, m2, L]" .
  have u: "[0..<4] = [0, 1, 2, 3 :: nat]" by (simp add: upt_rec)
  have "sampleDistances q0 L = subSegmentDistances 0 m1 @ subSegmentDistances m1 zW
          @ subSegmentDistances zW m2 @ subSegmentDistances m2 L"
    by (simp add: sampleDistances_def c u)
  then show ?thesis using subSegmentDistances_nonempty[OF o(2)] by simp
qed

lemma propagateToHit_ribbon:
  assumes "0 < h_distance h" "p_pts path \<noteq> []"
  shows "hasRibbon (propagateToHit pr path h)"
proof -
  have "0 < length (p_pts path)" "0 < length (sampleDistances (p_q path) (h_distance h))"
    using assms sampleDistances_nonempty[OF assms(1)] by simp_all
  then have "\<not> length (p_pts path) + length (sampleDistances (p_q path) (h_distance h)) < 2"
    by linarith
  then show ?thesis by (simp add: hasRibbon_def propagateToHit_pts)
qed

lemma workPass_append:
  "workGuard completedPaths eng \<Longrightarrow>
     \<exists>p. fst (workPass sc pr (completedPaths, eng)) = completedPaths @ [p]"
  by (auto simp add: workGuard_def workPass_def workStep_def Let_def split: list.splits)

lemma workLoop_keeps:
  "set completedPaths \<subseteq> set (fst (workLoop sc pr completedPaths eng))"
proof (induction sc pr completedPaths eng rule: workLoop.induct)
  case (1 sc pr completedPaths eng)
  show ?case
  proof (cases "workGuard completedPaths eng")
    case True
    obtain p where p: "fst (workPass sc pr (completedPaths, eng)) = completedPaths @ [p]"
      using workPass_append[OF True] by blast
    have "set (completedPaths @ [p]) \<subseteq> set (fst (workLoop sc pr completedPaths eng))"
      using "1.IH"[OF True] True unfolding p by (subst workLoop.simps) (simp add: p)
    then show ?thesis by auto
  next
    case False
    then show ?thesis by (subst workLoop.simps) simp
  qed
qed

text \<open>
  C5, as the code has it. A ray taken off the queue is marched from step 0; whenever the march
  reaches, after any number of passes that did not end it (detectors, lenses, polarizers and
  the like on the way), a state in which the loop condition holds and the nearest hit is a
  beam block, the march ends with that pass: the ray is sampled up to the hit (every sampled
  distance lies in \<open>(0, L]\<close> for the hit distance \<open>L\<close>) and moved to the hit point, and the
  engine state is left as it was at the head of the pass, so nothing is queued and no readout
  is written. The ray is then pushed on the completed paths, the work loop goes on with the
  rest of the queue, and the ray is among the completed paths when the work loop ends. With a
  block at a positive distance and a ray that has its starting point, the ray has at least two
  points, so it is among the paths a ribbon is built for.
\<close>

theorem beamBlock_completes:
  assumes "workGuard completedPaths eng0" and "queue eng0 = path0 # rest"
    and "marchReaches sc pr (0, path0, eng0\<lparr>queue := rest\<rparr>) (step, path, eng)"
    and "step < maxSegments pr" and "p_traveled path < p_maxLen path"
    and "raycastHits sc path = h # hs" and "el_type (h_element h) = ''beamBlock''"
    and "0 \<le> h_distance h"
  shows "march sc pr 0 path0 (eng0\<lparr>queue := rest\<rparr>) = (Suc step, propagateToHit pr path h, eng) \<and>
         workLoop sc pr completedPaths eng0 =
           workLoop sc pr (completedPaths @ [propagateToHit pr path h]) eng \<and>
         propagateToHit pr path h \<in> set (fst (workLoop sc pr completedPaths eng0)) \<and>
         (0 < h_distance h \<and> p_pts path \<noteq> [] \<longrightarrow>
            hasRibbon (propagateToHit pr path h) \<and>
            propagateToHit pr path h \<in> set (filter hasRibbon (fst (workLoop sc pr completedPaths eng0)))) \<and>
         p_pos (propagateToHit pr path h) = h_point h \<and>
         p_pts (propagateToHit pr path h) =
           p_pts path @ map (\<lambda>t. v_add (p_pos path) (v_multiplyScalar (p_dir path) t))
                            (sampleDistances (p_q path) (h_distance h)) \<and>
         (\<forall>t \<in> set (sampleDistances (p_q path) (h_distance h)). 0 < t \<and> t \<le> h_distance h)"
proof -
  have m: "march sc pr 0 path0 (eng0\<lparr>queue := rest\<rparr>) = (Suc step, propagateToHit pr path h, eng)"
    using marchReaches_march[OF assms(3)] march_block[OF assms(4-7), of eng] by simp
  then have ws: "workStep sc pr completedPaths path0 (eng0\<lparr>queue := rest\<rparr>)
      = (completedPaths @ [propagateToHit pr path h], eng)"
    by (simp add: workStep_def Let_def)
  have wl: "workLoop sc pr completedPaths eng0 =
           workLoop sc pr (completedPaths @ [propagateToHit pr path h]) eng"
    using workLoop_step[OF assms(1,2), of sc pr] unfolding ws by simp
  have mem: "propagateToHit pr path h \<in> set (fst (workLoop sc pr completedPaths eng0))"
    unfolding wl using workLoop_keeps[of "completedPaths @ [propagateToHit pr path h]" sc pr eng]
    by simp
  have rib: "hasRibbon (propagateToHit pr path h) \<and>
            propagateToHit pr path h \<in> set (filter hasRibbon (fst (workLoop sc pr completedPaths eng0)))"
    if "0 < h_distance h \<and> p_pts path \<noteq> []"
    using propagateToHit_ribbon[of h path pr] that mem by simp
  show ?thesis
    using m wl mem rib propagateToHit_pts propagateToHit_frame(4) sampleDistances_range[OF assms(8)]
    by blast
qed

theorem beamBlock_completes_witness:
  "workGuard [] (testEngine [testPath]) \<and> queue (testEngine [testPath]) = testPath # [] \<and>
   fst afterMeter = Next \<and>
   marchReaches twoHitScene testParams (0, testPath, testEngine []) (Suc 0, snd afterMeter) \<and>
   p_lastHit (fst (snd afterMeter)) = Some 2 \<and>
   raycastHits twoHitScene (fst (snd afterMeter)) = blockHitAfter # [] \<and>
   el_type (h_element blockHitAfter) = ''beamBlock'' \<and> 0 < h_distance blockHitAfter \<and>
   march twoHitScene testParams 0 testPath (testEngine []) =
     (Suc (Suc 0), propagateToHit testParams (fst (snd afterMeter)) blockHitAfter, snd (snd afterMeter)) \<and>
   workLoop twoHitScene testParams [] (testEngine [testPath]) =
     ([propagateToHit testParams (fst (snd afterMeter)) blockHitAfter], snd (snd afterMeter)) \<and>
   queue (snd (snd afterMeter)) = [] \<and>
   hasRibbon (propagateToHit testParams (fst (snd afterMeter)) blockHitAfter) \<and>
   filter hasRibbon (fst (workLoop twoHitScene testParams [] (testEngine [testPath]))) =
     [propagateToHit testParams (fst (snd afterMeter)) blockHitAfter] \<and>
   p_pos (propagateToHit testParams (fst (snd afterMeter)) blockHitAfter) = Vector3_new 0 0 (1 / 2)"
proof -
  let ?p1 = "fst (snd afterMeter)"
  let ?e1 = "snd (snd afterMeter)"
  have rc0: "raycastHits twoHitScene testPath = meterHit # [testHit ''beamBlock'']"
    by (simp add: raycastHits_def twoHitScene_def testPath_def meterHit_def testHit_def testElement_def)
  have am: "afterMeter = (Next, multimeterBranch (h_element meterHit)
                (angleOfIncidence (propagateToHit testParams testPath meterHit) (h_element meterHit))
                (propagateToHit testParams testPath meterHit) (testEngine []))"
    unfolding afterMeter_def stepBody_hit[OF rc0]
    by (simp add: interact_def Let_def meterHit_def testElement_def)
  have f: "fst afterMeter = Next" "p_lastHit ?p1 = Some 2" "p_traveled ?p1 = 1 / 4" "p_maxLen ?p1 = 1"
    "p_pos ?p1 = Vector3_new 0 0 (1 / 4 + 1 / 10 ^ 6)" "p_dir ?p1 = Vector3_new 0 0 1"
    "p_pts ?p1 \<noteq> []" "queue ?e1 = []"
    unfolding am
    by (simp_all add: multimeterBranch_def nudge_def pushPoint_def propagateToHit_def sampleSegment_def
        Let_def testParams_def testPath_def meterHit_def testElement_def testEngine_def
        v_add_def v_multiplyScalar_def Vector3_new_def)
  have a: "workGuard [] (testEngine [testPath])" "queue (testEngine [testPath]) = testPath # []"
    by (simp_all add: workGuard_def MAX_BEAMS_def testEngine_def)
  have e: "(testEngine [testPath])\<lparr>queue := []\<rparr> = testEngine []" by (simp add: testEngine_def)
  have sb: "stepBody twoHitScene testParams testPath (testEngine []) = (Next, ?p1, ?e1)"
    using f(1) unfolding afterMeter_def by (simp add: prod_eq_iff)
  have g0: "0 < maxSegments testParams" "p_traveled testPath < p_maxLen testPath"
    by (simp_all add: testParams_def testPath_def)
  have r: "marchReaches twoHitScene testParams (0, testPath, testEngine []) (Suc 0, ?p1, ?e1)"
    by (rule reach_next[OF reach_start g0 sb])
  have g1: "Suc 0 < maxSegments testParams" "p_traveled ?p1 < p_maxLen ?p1"
    by (simp_all add: testParams_def f)
  have rc1: "raycastHits twoHitScene ?p1 = blockHitAfter # []"
    unfolding raycastHits_def f
    by (simp add: twoHitScene_def blockHitAfter_def testElement_def Vector3_new_def)
  have ty: "el_type (h_element blockHitAfter) = ''beamBlock''" "0 \<le> h_distance blockHitAfter"
    "0 < h_distance blockHitAfter" "h_point blockHitAfter = Vector3_new 0 0 (1 / 2)"
    by (simp_all add: blockHitAfter_def testElement_def)
  have g: "\<not> workGuard ([] @ [propagateToHit testParams ?p1 blockHitAfter]) ?e1"
    by (simp add: workGuard_def f)
  have r': "marchReaches twoHitScene testParams (0, testPath, (testEngine [testPath])\<lparr>queue := []\<rparr>) (Suc 0, ?p1, ?e1)"
    unfolding e by (rule r)
  note T = beamBlock_completes[OF a r' g1 rc1 ty(1,2)]
  have t1: "march twoHitScene testParams 0 testPath (testEngine []) =
     (Suc (Suc 0), propagateToHit testParams ?p1 blockHitAfter, ?e1)"
    using T unfolding e by blast
  have t2: "workLoop twoHitScene testParams [] (testEngine [testPath]) =
     ([propagateToHit testParams ?p1 blockHitAfter], ?e1)"
    using T unfolding workLoop_stop[OF g] by simp
  have t3: "hasRibbon (propagateToHit testParams ?p1 blockHitAfter)"
    using T ty(3) f(7) by blast
  have t4: "p_pos (propagateToHit testParams ?p1 blockHitAfter) = Vector3_new 0 0 (1 / 2)"
    using T unfolding ty(4) by blast
  have r2: "marchReaches twoHitScene testParams (0, testPath, testEngine []) (Suc 0, snd afterMeter)"
    using r by simp
  show ?thesis
    using a f(1,2,8) r2 rc1 ty(1,3) t1 t3 t4 unfolding t2 by simp
qed

lemma sync_keeps:
  "bandwidth_nm (props (syncSourceW0ZR s)) = bandwidth_nm (props s)"
  "specSamples (props (syncSourceW0ZR s)) = specSamples (props s)"
  "wavelength_nm (props (syncSourceW0ZR s)) = wavelength_nm (props s)"
  "forward_cm (props (syncSourceW0ZR s)) = forward_cm (props s)"
  "backward_cm (props (syncSourceW0ZR s)) = backward_cm (props s)"
  "group_forward (syncSourceW0ZR s) = group_forward s"
  "group_position (syncSourceW0ZR s) = group_position s"
  "lastEdited (syncSourceW0ZR s) = lastEdited s"
  by (simp_all add: syncSourceW0ZR_def Let_def)

lemma spectral_sync:
  "spectralBW (syncSourceW0ZR s) = spectralBW s" "spectralN (syncSourceW0ZR s) = spectralN s"
  "spectralSamples (syncSourceW0ZR s) = spectralSamples s"
  by (simp_all add: spectralBW_def spectralN_def spectralSamples_def sync_keeps)

lemma sampleDistances_length_at_waist:
  assumes "re q0 = 0" "0 < L"
  shows "length (sampleDistances q0 L) = nat (min 160 (max 10 \<lfloor>L * 50\<rfloor>))"
proof -
  have c: "segmentCuts q0 L = [0, L]" using assms by (simp add: segmentCuts_def Let_def)
  show ?thesis using assms(2) by (simp add: sampleDistances_def c subSegmentDistances_def Let_def max_def)
qed

lemma v_normalize_z: "v_normalize (Vector3_new 0 0 1) = Vector3_new 0 0 1"
  by (simp add: v_normalize_def v_length_def v_multiplyScalar_def Vector3_new_def js_or_def)

text \<open>
  C5 as stated fails: in the scene with one source and a beam block 0.5 m in front of it,
  the blocked ray is the one completed path (ending at the block, with 26 points), and it is
  among the paths a ribbon is built for.
\<close>

theorem beamBlock_path_is_completed:
  "map p_pos (fst (snd blockRun)) = [Vector3_new 0 0 (1 / 2)] \<and>
   map p_traveled (fst (snd blockRun)) = [1 / 2] \<and>
   map (\<lambda>p. length (p_pts p)) (fst (snd blockRun)) = [26] \<and>
   fst (snd (snd blockRun)) = fst (snd blockRun)"
proof -
  define src where "src = testSource 1000 None None 200 0 1 ''w0''"
  define seed where "seed = makeSeed parseOne (syncSourceW0ZR src) (Vector3_new 0 0 1) 1 (1000 * (1 / 10 ^ 9)) 1"
  define eng0 where "eng0 = \<lparr>queue = [seed], elementLastInfo = Map.empty,
                 meterLastInfo = (Map.empty :: nat \<rightharpoonup> readout), gratingLastInfo = (Map.empty :: nat \<rightharpoonup> gratingInfo), meterUpdated = False\<rparr>"
  have sp: "group_forward src = Vector3_new 0 0 1" "group_position src = Vector3_new 0 0 0"
    "forward_cm (props src) = 100" "backward_cm (props src) = 0"
    by (simp_all add: src_def testSource_def)
  have smp: "spectralSamples (syncSourceW0ZR src) = [\<lparr>smp_lam = 1000 * (1 / 10 ^ 9), smp_weight = 1\<rparr>]"
    unfolding spectral_sync
    by (simp add: spectralSamples_def spectralBW_def src_def testSource_def js_or_opt_def Let_def)
  have sd: "seedSource parseOne src = (syncSourceW0ZR src, [seed])"
    unfolding seedSource_def Let_def smp seed_def sync_keeps sp v_normalize_z
    by simp
  have seedf: "p_pos seed = Vector3_new 0 0 0" "p_dir seed = Vector3_new 0 0 1" "p_lastHit seed = None"
    "p_maxLen seed = 1" "p_traveled seed = 0" "re (p_q seed) = 0" "length (p_pts seed) = 1"
    by (simp_all add: seed_def makeSeed_def Let_def sync_keeps sp Complex_clone_def Complex_new_def)
  have rc: "raycastHits (testScene ''beamBlock'') seed = testHit ''beamBlock'' # []"
    by (simp add: raycastHits_def testScene_def seedf testHit_def testElement_def)
  have ty: "el_type (h_element (testHit ''beamBlock'')) = ''beamBlock''" by (simp add: testHit_def testElement_def)
  have ws: "workStep (testScene ''beamBlock'') testParams [] seed (eng0\<lparr>queue := []\<rparr>)
      = ([] @ [propagateToHit testParams seed (testHit ''beamBlock'')], eng0\<lparr>queue := []\<rparr>)"
    by (rule workStep_block[OF rc ty]) (simp_all add: testParams_def seedf)
  have q0: "queue eng0 = seed # []" by (simp add: eng0_def)
  have g0: "workGuard [] eng0" by (simp add: workGuard_def eng0_def MAX_BEAMS_def)
  have g1: "\<not> workGuard [propagateToHit testParams seed (testHit ''beamBlock'')] (eng0\<lparr>queue := []\<rparr>)"
    by (simp add: workGuard_def)
  have wl: "workLoop (testScene ''beamBlock'') testParams [] eng0 = ([propagateToHit testParams seed (testHit ''beamBlock'')], eng0\<lparr>queue := []\<rparr>)"
    using workLoop_step[OF g0 q0, of "testScene ''beamBlock''" testParams]
      workLoop_stop[OF g1, of "testScene ''beamBlock''" testParams] ws by simp
  have n: "length (p_pts (propagateToHit testParams seed (testHit ''beamBlock''))) = 26"
    using sampleDistances_length_at_waist[OF seedf(6), of "1 / 2"]
    by (simp add: propagateToHit_pts seedf testHit_def)
  have run: "blockRun = ([syncSourceW0ZR src], [propagateToHit testParams seed (testHit ''beamBlock'')],
       filter hasRibbon [propagateToHit testParams seed (testHit ''beamBlock'')], eng0\<lparr>queue := []\<rparr>)"
    unfolding blockRun_def recompute_def Let_def src_def[symmetric]
    using sd wl by (simp add: eng0_def)
  show ?thesis unfolding run using n
    by (simp add: hasRibbon_def propagateToHit_frame seedf testHit_def)
qed


subsection \<open>Spectral seeding\<close>


















subsection \<open>Grating orders\<close>












lemma v_dot_commute: "v_dot a b = v_dot b a"
  by (simp add: v_dot_def algebra_simps)

lemma v_length_dot: "v_length w = sqrt (v_dot w w)"
  by (simp add: v_length_def v_dot_def)

lemma v_normalize_unit: "v_dot w w = 1 \<Longrightarrow> v_normalize w = w"
  by (simp add: v_normalize_def v_length_dot js_or_def v_multiplyScalar_def Vector3_new_def)



lemma grating_frame:
  assumes "v_dot (mesh_normal el) (mesh_normal el) = 1"
    and "v_dot (mesh_tangent el) (mesh_tangent el) = 1"
    and "v_dot (mesh_normal el) (mesh_tangent el) = 0"
  shows "gratingNormal el = mesh_normal el" "gratingTangent el = mesh_tangent el"
proof -
  show n: "gratingNormal el = mesh_normal el"
    unfolding gratingNormal_def by (rule v_normalize_unit[OF assms(1)])
  have z: "v_dot (mesh_tangent el) (mesh_normal el) = 0" using assms(3) by (simp add: v_dot_commute)
  have e: "v_sub (mesh_tangent el) (v_multiplyScalar (mesh_normal el) 0) = mesh_tangent el"
    by (simp add: v_sub_def v_multiplyScalar_def Vector3_new_def)
  show "gratingTangent el = mesh_tangent el"
    unfolding gratingTangent_def Let_def n z e by (rule v_normalize_unit[OF assms(2)])
qed







end
